theory Spec2Isabelle
  imports Main "HOL-Library.Word"
begin

section \<open>Errors, readers and identifiers\<close>

text \<open>
  The package \<^verbatim>\<open>discordhook\<close> returns Go \<^verbatim>\<open>error\<close> values. The model keeps one
  constructor for every kind of error the four operations can hand back:
  \<^item> \<open>errorString\<close> is \<^verbatim>\<open>errors.New(text)\<close>, which the operations build from the body of
    a response whose status they do not accept;
  \<^item> \<open>EOF\<close> is \<^verbatim>\<open>io.EOF\<close>;
  \<^item> \<open>Canceled\<close> and \<open>DeadlineExceeded\<close> are the two errors of a \<^verbatim>\<open>context.Context\<close>;
  \<^item> \<open>UrlError\<close> is what \<^verbatim>\<open>url.Parse\<close> reports, \<open>JsonError\<close> what the JSON decoder reports
    on a malformed or ill-typed document, \<open>IOError\<close> what a reader or the transport reports.
\<close>

datatype error =
    errorString string
  | EOF
  | Canceled
  | DeadlineExceeded
  | UrlError string
  | JsonError string
  | IOError string

text \<open>\<^verbatim>\<open>snowflake.Snowflake\<close> is a \<^verbatim>\<open>uint64\<close>; Go's \<^verbatim>\<open>int\<close> is a signed 64-bit word.\<close>

type_synonym Snowflake = "64 word"
type_synonym go_int = "64 word"

text \<open>
  An \<^verbatim>\<open>io.Reader\<close> is modelled by the bytes it delivers and the error, if any, with which it
  ends instead of a clean end of file.
\<close>

record Reader =
  rd_bytes :: string
  rd_err :: "error option"

text \<open>\<^verbatim>\<open>ioutil.ReadAll\<close> and \<^verbatim>\<open>io.Copy\<close>: the bytes, or the reader's error.\<close>

definition ReadAll :: "Reader \<Rightarrow> error + string" where
  "ReadAll r = (case rd_err r of Some e \<Rightarrow> Inl e | None \<Rightarrow> Inr (rd_bytes r))"

definition Copy :: "Reader \<Rightarrow> error + string" where
  "Copy r = (case rd_err r of Some e \<Rightarrow> Inl e | None \<Rightarrow> Inr (rd_bytes r))"

text \<open>A \<^verbatim>\<open>context.Context\<close>: \<open>ctx_Err\<close> is \<^verbatim>\<open>ctx.Err()\<close>, \<open>None\<close> while the context is live.\<close>

record Context =
  ctx_Err :: "error option"

subsection \<open>Decimal rendering: strconv.FormatUint, strconv.FormatBool\<close>

definition digit_char :: "nat \<Rightarrow> char" where
  "digit_char d = char_of (48 + d)"

definition is_digit :: "char \<Rightarrow> bool" where
  "is_digit c = (48 \<le> (of_char c :: nat) \<and> (of_char c :: nat) \<le> 57)"

definition digit_val :: "char \<Rightarrow> nat" where
  "digit_val c = of_char c - 48"

fun digits_of :: "nat \<Rightarrow> string" where
  "digits_of n = (if n < 10 then [digit_char n] else digits_of (n div 10) @ [digit_char (n mod 10)])"

declare digits_of.simps [simp del]

text \<open>\<^verbatim>\<open>strconv.FormatUint(uint64(i), 10)\<close>; the package only ever passes base 10.\<close>

definition FormatUint :: "64 word \<Rightarrow> string" where
  "FormatUint i = digits_of (unat i)"

definition FormatBool :: "bool \<Rightarrow> string" where
  "FormatBool b = (if b then ''true'' else ''false'')"

definition is_hex :: "char \<Rightarrow> bool" where
  "is_hex c =
     (is_digit c \<or> 65 \<le> (of_char c :: nat) \<and> (of_char c :: nat) \<le> 70 \<or>
      97 \<le> (of_char c :: nat) \<and> (of_char c :: nat) \<le> 102)"

definition unhex :: "char \<Rightarrow> nat" where
  "unhex c =
     (if is_digit c then of_char c - 48
      else if 97 \<le> (of_char c :: nat) then of_char c - 87
      else of_char c - 55)"

definition read_nat :: "string \<Rightarrow> nat" where
  "read_nat ds = foldl (\<lambda>n d. 10 * n + digit_val d) 0 ds"

section \<open>JSON\<close>

text \<open>
  The package encodes and decodes with \<^verbatim>\<open>jsoniter\<close> in its default configuration. A JSON
  document is modelled as a tree; an object keeps its members in order, duplicates
  included. A number written without fraction and exponent is \<open>JNumber\<close>; any other
  number is \<open>JFloat\<close> and keeps its text, since no record of the package has a
  fractional field and the decoder only ever has to pass over such a number or refuse it.
\<close>

datatype json =
    JNull
  | JBool bool
  | JNumber int
  | JFloat string
  | JString string
  | JArray "json list"
  | JObject "(string \<times> json) list"

subsection \<open>Reading a document from text\<close>

definition is_space :: "char \<Rightarrow> bool" where
  "is_space c = (c = CHR '' '' \<or> c = CHR 0x0A \<or> c = CHR 0x09 \<or> c = CHR 0x0D)"

definition skip_ws :: "string \<Rightarrow> string" where
  "skip_ws cs = dropWhile is_space cs"

text \<open>
  Escapes in a string literal. The two-character escapes stand for one byte each. A
  \<^verbatim>\<open>\u\<close> escape names a UTF-16 code unit by four hexadecimal digits; the decoder writes
  the character in UTF-8. A high surrogate followed by the escape of a low surrogate
  is one character beyond the basic plane; a surrogate that stands alone becomes the
  replacement character U+FFFD.
\<close>

definition simple_escape :: "char \<Rightarrow> char option" where
  "simple_escape e =
     (if e = CHR 0x22 \<or> e = CHR 0x5C \<or> e = CHR ''/'' then Some e
      else if e = CHR ''n'' then Some (CHR 0x0A)
      else if e = CHR ''t'' then Some (CHR 0x09)
      else if e = CHR ''r'' then Some (CHR 0x0D)
      else if e = CHR ''b'' then Some (CHR 0x08)
      else if e = CHR ''f'' then Some (CHR 0x0C)
      else None)"

definition read_u4 :: "string \<Rightarrow> (nat \<times> string) option" where
  "read_u4 cs =
     (case cs of
        a # b # c # d # r \<Rightarrow>
          if is_hex a \<and> is_hex b \<and> is_hex c \<and> is_hex d then
            Some (4096 * unhex a + 256 * unhex b + 16 * unhex c + unhex d, r)
          else None
      | _ \<Rightarrow> None)"

definition utf8_encode :: "nat \<Rightarrow> string" where
  "utf8_encode cp =
     (if cp < 128 then [char_of cp]
      else if cp < 2048 then [char_of (192 + cp div 64), char_of (128 + cp mod 64)]
      else if cp < 65536 then
        [char_of (224 + cp div 4096), char_of (128 + cp div 64 mod 64), char_of (128 + cp mod 64)]
      else
        [char_of (240 + cp div 262144), char_of (128 + cp div 4096 mod 64),
         char_of (128 + cp div 64 mod 64), char_of (128 + cp mod 64)])"

definition is_surrogate :: "nat \<Rightarrow> bool" where
  "is_surrogate u = (55296 \<le> u \<and> u < 57344)"

text \<open>\<open>append_rune\<close>: the UTF-8 form of a code unit, a surrogate replaced by U+FFFD.\<close>

definition append_rune :: "nat \<Rightarrow> string" where
  "append_rune u = utf8_encode (if is_surrogate u then 65533 else u)"

text \<open>
  \<open>read_escape e cs\<close>: the bytes that the escape with the letter \<open>e\<close> stands for, and
  the text after it; \<open>cs\<close> is the text after the letter.
\<close>

definition read_escape :: "char \<Rightarrow> string \<Rightarrow> (string \<times> string) option" where
  "read_escape e cs =
     (if e = CHR ''u'' then
        (case read_u4 cs of
           None \<Rightarrow> None
         | Some (u, r) \<Rightarrow>
             if \<not> is_surrogate u then Some (utf8_encode u, r)
             else
               (case r of
                  b # c # r2 \<Rightarrow>
                    if b \<noteq> CHR 0x5C then Some (append_rune u, r)
                    else if c = CHR ''u'' then
                      (case read_u4 r2 of
                         None \<Rightarrow> None
                       | Some (l, r3) \<Rightarrow>
                           if u < 56320 \<and> 56320 \<le> l \<and> l < 57344 then
                             Some (utf8_encode (65536 + (u - 55296) * 1024 + (l - 56320)), r3)
                           else Some (append_rune u @ append_rune l, r3))
                    else
                      (case simple_escape c of
                         None \<Rightarrow> None
                       | Some d \<Rightarrow> Some (append_rune u @ [d], r2))
                | _ \<Rightarrow> Some (append_rune u, r)))
      else (case simple_escape e of None \<Rightarrow> None | Some d \<Rightarrow> Some ([d], cs)))"

lemma read_escape_length: "read_escape e cs = Some (bs, r) \<Longrightarrow> length r \<le> length cs"
  by (auto simp add: read_escape_def read_u4_def split: if_splits option.splits list.splits)

text \<open>
  \<open>read_string cs acc\<close> reads a string literal whose opening quote has been consumed,
  up to the closing quote. A control character must be escaped.
\<close>

function read_string :: "string \<Rightarrow> string \<Rightarrow> (string \<times> string) option" where
  "read_string [] acc = None"
| "read_string (c # cs) acc =
     (if c = CHR 0x22 then Some (rev acc, cs)
      else if c = CHR 0x5C then
        (case cs of
           [] \<Rightarrow> None
         | e # cs' \<Rightarrow>
             (case read_escape e cs' of
                None \<Rightarrow> None
              | Some (bs, r) \<Rightarrow> read_string r (rev bs @ acc)))
      else if (of_char c :: nat) < 32 then None
      else read_string cs (c # acc))"
  by pat_completeness auto
termination
  by (relation "measure (\<lambda>(cs, acc). length cs)") (auto dest: read_escape_length)

text \<open>
  A number: an optional minus sign, the integer part (a single \<^verbatim>\<open>0\<close>, or digits that do
  not start with \<^verbatim>\<open>0\<close>), an optional fraction, an optional exponent.
\<close>

definition read_digits :: "string \<Rightarrow> string \<times> string" where
  "read_digits cs = (takeWhile is_digit cs, dropWhile is_digit cs)"

definition read_int_part :: "string \<Rightarrow> (string \<times> string) option" where
  "read_int_part cs =
     (case cs of
        [] \<Rightarrow> None
      | c # r \<Rightarrow>
          if c = CHR ''0'' then Some ([c], r)
          else if is_digit c then Some (read_digits cs)
          else None)"

definition read_frac :: "string \<Rightarrow> (string \<times> string) option" where
  "read_frac cs =
     (case cs of
        [] \<Rightarrow> Some ([], cs)
      | c # r \<Rightarrow>
          if c \<noteq> CHR ''.'' then Some ([], cs)
          else if fst (read_digits r) = [] then None
          else Some (c # fst (read_digits r), snd (read_digits r)))"

definition read_exp :: "string \<Rightarrow> (string \<times> string) option" where
  "read_exp cs =
     (case cs of
        [] \<Rightarrow> Some ([], cs)
      | c # r \<Rightarrow>
          if c \<noteq> CHR ''e'' \<and> c \<noteq> CHR ''E'' then Some ([], cs)
          else
            (case r of
               [] \<Rightarrow> None
             | g # r' \<Rightarrow>
                 if g = CHR ''+'' \<or> g = CHR ''-'' then
                   (if fst (read_digits r') = [] then None
                    else Some (c # g # fst (read_digits r'), snd (read_digits r')))
                 else if fst (read_digits r) = [] then None
                 else Some (c # fst (read_digits r), snd (read_digits r))))"

definition read_number :: "string \<Rightarrow> (json \<times> string) option" where
  "read_number cs =
     (let neg = (take 1 cs = ''-''); body = (if neg then drop 1 cs else cs) in
      case read_int_part body of
        None \<Rightarrow> None
      | Some (ds, r1) \<Rightarrow>
          (case read_frac r1 of
             None \<Rightarrow> None
           | Some (fs, r2) \<Rightarrow>
               (case read_exp r2 of
                  None \<Rightarrow> None
                | Some (es, r3) \<Rightarrow>
                    if fs = [] \<and> es = [] then
                      Some (JNumber (if neg then - int (read_nat ds) else int (read_nat ds)), r3)
                    else Some (JFloat ((if neg then ''-'' else []) @ ds @ fs @ es), r3))))"

text \<open>
  The value parser. Its first argument bounds the depth of the calls; \<open>parse_json\<close>
  starts it at twice the length of the text and two more. The result is the value and
  the text after it; \<open>None\<close> is a text that holds no value.
\<close>

fun parse_value :: "nat \<Rightarrow> string \<Rightarrow> (json \<times> string) option"
and parse_elems :: "nat \<Rightarrow> string \<Rightarrow> (json list \<times> string) option"
and parse_members :: "nat \<Rightarrow> string \<Rightarrow> ((string \<times> json) list \<times> string) option" where
  "parse_value 0 cs = None"
| "parse_value (Suc n) cs =
     (case skip_ws cs of
        [] \<Rightarrow> None
      | c # r \<Rightarrow>
          if c = CHR ''{'' then
            (case skip_ws r of
               [] \<Rightarrow> None
             | d # r' \<Rightarrow>
                 if d = CHR ''}'' then Some (JObject [], r')
                 else map_option (\<lambda>(kvs, r''). (JObject kvs, r'')) (parse_members n r))
          else if c = CHR ''['' then
            (case skip_ws r of
               [] \<Rightarrow> None
             | d # r' \<Rightarrow>
                 if d = CHR '']'' then Some (JArray [], r')
                 else map_option (\<lambda>(vs, r''). (JArray vs, r'')) (parse_elems n r))
          else if c = CHR 0x22 then
            map_option (\<lambda>(s, r'). (JString s, r')) (read_string r [])
          else if c = CHR ''t'' then
            (if take 3 r = ''rue'' then Some (JBool True, drop 3 r) else None)
          else if c = CHR ''f'' then
            (if take 4 r = ''alse'' then Some (JBool False, drop 4 r) else None)
          else if c = CHR ''n'' then
            (if take 3 r = ''ull'' then Some (JNull, drop 3 r) else None)
          else read_number (c # r))"
| "parse_elems 0 cs = None"
| "parse_elems (Suc n) cs =
     (case parse_value n cs of
        None \<Rightarrow> None
      | Some (v, r) \<Rightarrow>
          (case skip_ws r of
             [] \<Rightarrow> None
           | c # r' \<Rightarrow>
               if c = CHR '','' then map_option (\<lambda>(vs, r''). (v # vs, r'')) (parse_elems n r')
               else if c = CHR '']'' then Some ([v], r')
               else None))"
| "parse_members 0 cs = None"
| "parse_members (Suc n) cs =
     (case skip_ws cs of
        [] \<Rightarrow> None
      | q # r \<Rightarrow>
          if q \<noteq> CHR 0x22 then None
          else
            (case read_string r [] of
               None \<Rightarrow> None
             | Some (k, r1) \<Rightarrow>
                 (case skip_ws r1 of
                    [] \<Rightarrow> None
                  | c # r2 \<Rightarrow>
                      if c \<noteq> CHR '':'' then None
                      else
                        (case parse_value n r2 of
                           None \<Rightarrow> None
                         | Some (v, r3) \<Rightarrow>
                             (case skip_ws r3 of
                                [] \<Rightarrow> None
                              | d # r4 \<Rightarrow>
                                  if d = CHR '','' then
                                    map_option (\<lambda>(kvs, r5). ((k, v) # kvs, r5)) (parse_members n r4)
                                  else if d = CHR ''}'' then Some ([(k, v)], r4)
                                  else None)))))"

text \<open>
  \<^verbatim>\<open>Decoder.Decode\<close> reads one value from the front of the stream; what follows the
  value stays unread.
\<close>

definition parse_json :: "string \<Rightarrow> json option" where
  "parse_json s = map_option fst (parse_value (2 * length s + 2) s)"

subsection \<open>Struct tags\<close>

text \<open>
  \<^verbatim>\<open>jsoniter\<close> reads a field's tag as \<^verbatim>\<open>strings.Split(tag, ",")\<close>: the first part is the
  member's key, and the field is left out when it is empty only if one of the other
  parts is exactly \<^verbatim>\<open>omitempty\<close>; a part it does not know is ignored. The model keeps every
  tag as the source spells it and derives key and omission from that text.
\<close>

fun split_on :: "char \<Rightarrow> string \<Rightarrow> string \<Rightarrow> string list" where
  "split_on sep cur [] = [rev cur]"
| "split_on sep cur (c # cs) =
     (if c = sep then rev cur # split_on sep [] cs else split_on sep (c # cur) cs)"

definition tag_parts :: "string \<Rightarrow> string list" where
  "tag_parts tag = split_on (CHR '','') [] tag"

definition tag_name :: "string \<Rightarrow> string" where
  "tag_name tag = hd (tag_parts tag)"

definition tag_omitempty :: "string \<Rightarrow> bool" where
  "tag_omitempty tag = (''omitempty'' \<in> set (tl (tag_parts tag)))"

text \<open>One field of a struct: no member when the tag omits empties and the field is empty.\<close>

definition field :: "string \<Rightarrow> bool \<Rightarrow> json \<Rightarrow> (string \<times> json) list" where
  "field tag emp v = (if tag_omitempty tag \<and> emp then [] else [(tag_name tag, v)])"

text \<open>
  Emptiness by kind, as the encoder tests it: a string or slice of length 0, the integer
  0, \<^verbatim>\<open>false\<close>, a nil pointer.
\<close>

definition string_field :: "string \<Rightarrow> string \<Rightarrow> (string \<times> json) list" where
  "string_field tag s = field tag (s = []) (JString s)"

definition int_field :: "string \<Rightarrow> go_int \<Rightarrow> (string \<times> json) list" where
  "int_field tag i = field tag (i = 0) (JNumber (sint i))"

definition bool_field :: "string \<Rightarrow> bool \<Rightarrow> (string \<times> json) list" where
  "bool_field tag b = field tag (\<not> b) (JBool b)"

definition enc_ptr :: "('a \<Rightarrow> json) \<Rightarrow> 'a option \<Rightarrow> json" where
  "enc_ptr enc p = (case p of None \<Rightarrow> JNull | Some x \<Rightarrow> enc x)"

definition ptr_field :: "string \<Rightarrow> ('a \<Rightarrow> json) \<Rightarrow> 'a option \<Rightarrow> (string \<times> json) list" where
  "ptr_field tag enc p = field tag (p = None) (enc_ptr enc p)"

definition slice_field :: "string \<Rightarrow> ('a \<Rightarrow> json) \<Rightarrow> 'a list \<Rightarrow> (string \<times> json) list" where
  "slice_field tag enc xs = field tag (xs = []) (JArray (map enc xs))"

text \<open>
  \<^verbatim>\<open>Snowflake.MarshalJSON\<close> belongs to the imported snowflake package: the identifier as a
  quoted decimal string (a 64-bit number does not survive as a JSON number).
\<close>

definition Snowflake_MarshalJSON :: "Snowflake \<Rightarrow> json" where
  "Snowflake_MarshalJSON s = JString (FormatUint s)"

definition snowflake_field :: "string \<Rightarrow> Snowflake \<Rightarrow> (string \<times> json) list" where
  "snowflake_field tag s = field tag (s = 0) (Snowflake_MarshalJSON s)"

subsection \<open>Decoding values\<close>

text \<open>
  The decoders follow \<^verbatim>\<open>jsoniter\<close>: \<^verbatim>\<open>null\<close> gives the empty string, a nil pointer and a
  nil slice, and leaves an integer, a boolean and a struct as they were; a value of the
  wrong kind is an error. A struct decoder walks the members in order, matches each key
  to a field without regard to ASCII case, skips a key it does not know, and stops at the
  first error; of two members for one field the later one stands.
\<close>

definition to_lower :: "char \<Rightarrow> char" where
  "to_lower c =
     (if 65 \<le> (of_char c :: nat) \<and> (of_char c :: nat) \<le> 90 then char_of (of_char c + (32 :: nat)) else c)"

definition dec_string :: "json \<Rightarrow> error + string" where
  "dec_string v =
     (case v of JString s \<Rightarrow> Inr s | JNull \<Rightarrow> Inr [] | _ \<Rightarrow> Inl (JsonError ''ReadString''))"

definition dec_int :: "json \<Rightarrow> go_int \<Rightarrow> error + go_int" where
  "dec_int v cur =
     (case v of
        JNumber n \<Rightarrow>
          if - (2 ^ 63) \<le> n \<and> n < 2 ^ 63 then Inr (word_of_int n)
          else Inl (JsonError ''ReadInt'')
      | JNull \<Rightarrow> Inr cur
      | _ \<Rightarrow> Inl (JsonError ''ReadInt''))"

definition dec_bool :: "json \<Rightarrow> bool \<Rightarrow> error + bool" where
  "dec_bool v cur =
     (case v of JBool b \<Rightarrow> Inr b | JNull \<Rightarrow> Inr cur | _ \<Rightarrow> Inl (JsonError ''ReadBool''))"

definition dec_ptr :: "(json \<Rightarrow> 'a \<Rightarrow> error + 'a) \<Rightarrow> 'a \<Rightarrow> json \<Rightarrow> 'a option \<Rightarrow> error + 'a option" where
  "dec_ptr dec zero v cur =
     (case v of
        JNull \<Rightarrow> Inr None
      | _ \<Rightarrow> map_sum id Some (dec v (case cur of None \<Rightarrow> zero | Some x \<Rightarrow> x)))"

fun traverse :: "('a \<Rightarrow> error + 'b) \<Rightarrow> 'a list \<Rightarrow> error + 'b list" where
  "traverse f [] = Inr []"
| "traverse f (x # xs) =
     (case f x of
        Inl e \<Rightarrow> Inl e
      | Inr y \<Rightarrow> (case traverse f xs of Inl e \<Rightarrow> Inl e | Inr ys \<Rightarrow> Inr (y # ys)))"

definition dec_slice :: "(json \<Rightarrow> error + 'a) \<Rightarrow> json \<Rightarrow> error + 'a list" where
  "dec_slice dec v =
     (case v of
        JArray vs \<Rightarrow> traverse dec vs
      | JNull \<Rightarrow> Inr []
      | _ \<Rightarrow> Inl (JsonError ''decode slice''))"

fun decode_members ::
  "(string \<Rightarrow> json \<Rightarrow> 'a \<Rightarrow> error + 'a) \<Rightarrow> (string \<times> json) list \<Rightarrow> 'a \<Rightarrow> error + 'a" where
  "decode_members f [] a = Inr a"
| "decode_members f ((k, v) # kvs) a =
     (case f (map to_lower k) v a of
        Inl e \<Rightarrow> Inl e
      | Inr a' \<Rightarrow> decode_members f kvs a')"

definition decode_struct ::
  "(string \<Rightarrow> json \<Rightarrow> 'a \<Rightarrow> error + 'a) \<Rightarrow> json \<Rightarrow> 'a \<Rightarrow> error + 'a" where
  "decode_struct f v a =
     (case v of
        JObject kvs \<Rightarrow> decode_members f kvs a
      | JNull \<Rightarrow> Inr a
      | _ \<Rightarrow> Inl (JsonError ''readObjectStart''))"

text \<open>
  \<^verbatim>\<open>Snowflake.UnmarshalJSON\<close>, again of the imported package: \<^verbatim>\<open>null\<close> is 0, a quoted or
  bare run of decimal digits is the number it spells. In the model a number that does
  not fit 64 bits and any other value are errors.
\<close>

definition Snowflake_UnmarshalJSON :: "json \<Rightarrow> error + Snowflake" where
  "Snowflake_UnmarshalJSON v =
     (case v of
        JNull \<Rightarrow> Inr 0
      | JString ds \<Rightarrow>
          if ds \<noteq> [] \<and> list_all is_digit ds \<and> read_nat ds < 2 ^ 64 then Inr (of_nat (read_nat ds))
          else Inl (JsonError ''snowflake'')
      | JNumber n \<Rightarrow>
          if 0 \<le> n \<and> n < 2 ^ 64 then Inr (word_of_int n) else Inl (JsonError ''snowflake'')
      | _ \<Rightarrow> Inl (JsonError ''snowflake''))"

text \<open>
  \<^verbatim>\<open>Decoder.Decode(obj)\<close> over a reader. A stream that delivers no byte gives \<^verbatim>\<open>io.EOF\<close>:
  the decoder tests this before it looks for a value. Otherwise the first value of the
  text is decoded into \<open>obj\<close>; when the text holds no complete value the error is the
  reader's own, if it ended with one, and a syntax error if not.
\<close>

definition Decode :: "(json \<Rightarrow> 'a \<Rightarrow> error + 'a) \<Rightarrow> Reader \<Rightarrow> 'a \<Rightarrow> error + 'a" where
  "Decode dec r obj =
     (if rd_bytes r = [] then Inl EOF
      else
        (case parse_json (rd_bytes r) of
           Some v \<Rightarrow> dec v obj
         | None \<Rightarrow>
             Inl (case rd_err r of Some e \<Rightarrow> e | None \<Rightarrow> JsonError ''invalid document'')))"

section \<open>URLs: url.Parse\<close>

text \<open>
  \<^verbatim>\<open>url.Parse\<close> of the standard library, for absolute URLs as \<open>NewWebhookAPI\<close> builds
  them. The fields \<^verbatim>\<open>User\<close> and \<^verbatim>\<open>RawPath\<close> of \<^verbatim>\<open>url.URL\<close> are not kept. The steps are
  the library's: cut the fragment at the first \<^verbatim>\<open>#\<close>, refuse control bytes, read the scheme,
  cut the query at the first \<^verbatim>\<open>?\<close>, read the authority up to the next \<^verbatim>\<open>/\<close>, and unescape
  the path and the fragment.
\<close>

record URL =
  Scheme :: string
  Opaque :: string
  Host :: string
  Path :: string
  ForceQuery :: bool
  RawQuery :: string
  Fragment :: string

definition zero_URL :: URL where
  "zero_URL =
     \<lparr>Scheme = [], Opaque = [], Host = [], Path = [], ForceQuery = False, RawQuery = [],
      Fragment = []\<rparr>"

definition is_alpha :: "char \<Rightarrow> bool" where
  "is_alpha c =
     (65 \<le> (of_char c :: nat) \<and> (of_char c :: nat) \<le> 90 \<or>
      97 \<le> (of_char c :: nat) \<and> (of_char c :: nat) \<le> 122)"

text \<open>\<^verbatim>\<open>split(s, sep, cutc)\<close>: cut at the first \<open>sep\<close>, which \<open>cutc\<close> drops.\<close>

definition url_split :: "string \<Rightarrow> char \<Rightarrow> bool \<Rightarrow> string \<times> string" where
  "url_split s sep cutc =
     (takeWhile (\<lambda>c. c \<noteq> sep) s,
      if cutc then drop 1 (dropWhile (\<lambda>c. c \<noteq> sep) s) else dropWhile (\<lambda>c. c \<noteq> sep) s)"

definition stringContainsCTLByte :: "string \<Rightarrow> bool" where
  "stringContainsCTLByte s = list_ex (\<lambda>c. (of_char c :: nat) < 32 \<or> (of_char c :: nat) = 127) s"

text \<open>\<open>getscheme_loop rawurl pre cs\<close>: \<open>pre\<close> is what the loop has passed, \<open>cs\<close> what is left.\<close>

fun getscheme_loop :: "string \<Rightarrow> string \<Rightarrow> string \<Rightarrow> error + (string \<times> string)" where
  "getscheme_loop rawurl pre [] = Inr ([], rawurl)"
| "getscheme_loop rawurl pre (c # cs) =
     (if is_alpha c then getscheme_loop rawurl (pre @ [c]) cs
      else if is_digit c \<or> c = CHR ''+'' \<or> c = CHR ''-'' \<or> c = CHR ''.'' then
        (if pre = [] then Inr ([], rawurl) else getscheme_loop rawurl (pre @ [c]) cs)
      else if c = CHR '':'' then
        (if pre = [] then Inl (UrlError ''missing protocol scheme'') else Inr (pre, cs))
      else Inr ([], rawurl))"

definition getscheme :: "string \<Rightarrow> error + (string \<times> string)" where
  "getscheme rawurl = getscheme_loop rawurl [] rawurl"

text \<open>
  \<^verbatim>\<open>unescape\<close> in the path and fragment modes: a \<^verbatim>\<open>%\<close> must be followed by two hexadecimal
  digits, and stands for that byte.
\<close>

fun unescape :: "string \<Rightarrow> error + string" where
  "unescape [] = Inr []"
| "unescape (c # cs) =
     (if c = CHR ''%'' then
        (case cs of
           h1 # h2 # r \<Rightarrow>
             if is_hex h1 \<and> is_hex h2 then
               map_sum id ((#) (char_of (16 * unhex h1 + unhex h2))) (unescape r)
             else Inl (UrlError ''invalid URL escape'')
         | _ \<Rightarrow> Inl (UrlError ''invalid URL escape''))
      else map_sum id ((#) c) (unescape cs))"

text \<open>
  The authority. The package only ever parses the host \<^verbatim>\<open>discord.com\<close>; the model accepts
  a plain registered name (letters, digits, \<^verbatim>\<open>-\<close>, \<^verbatim>\<open>.\<close>, \<^verbatim>\<open>_\<close>, \<^verbatim>\<open>~\<close>) and reports any other
  authority (user information, a port, an address literal, an escape) as an error.
\<close>

definition unreserved :: "char \<Rightarrow> bool" where
  "unreserved c =
     (is_alpha c \<or> is_digit c \<or> c = CHR ''-'' \<or> c = CHR ''_'' \<or> c = CHR ''.'' \<or> c = CHR ''~'')"

definition parseAuthority :: "string \<Rightarrow> error + string" where
  "parseAuthority authority =
     (if list_all unreserved authority then Inr authority
      else Inl (UrlError ''authority outside the model''))"

definition colon_before_slash :: "string \<Rightarrow> bool" where
  "colon_before_slash rest = (CHR '':'' \<in> set (takeWhile (\<lambda>c. c \<noteq> CHR ''/'') rest))"

definition parse :: "string \<Rightarrow> error + URL" where
  "parse rawurl =
     (if stringContainsCTLByte rawurl then
        Inl (UrlError ''net/url: invalid control character in URL'')
      else if rawurl = ''*'' then Inr (zero_URL\<lparr>Path := ''*''\<rparr>)
      else
        (case getscheme rawurl of
           Inl err \<Rightarrow> Inl err
         | Inr (scheme, rest0) \<Rightarrow>
             (let force = (rest0 \<noteq> [] \<and> last rest0 = CHR ''?'' \<and> count_list rest0 (CHR ''?'') = 1);
                  rest = (if force then butlast rest0 else fst (url_split rest0 (CHR ''?'') True));
                  query = (if force then [] else snd (url_split rest0 (CHR ''?'') True));
                  url = zero_URL\<lparr>Scheme := map to_lower scheme, ForceQuery := force, RawQuery := query\<rparr>
              in
                if take 1 rest \<noteq> ''/'' \<and> scheme \<noteq> [] then Inr (url\<lparr>Opaque := rest\<rparr>)
                else if take 1 rest \<noteq> ''/'' \<and> colon_before_slash rest then
                  Inl (UrlError ''first path segment in URL cannot contain colon'')
                else if take 2 rest = ''//'' \<and> (if scheme = [] then take 3 rest \<noteq> ''///'' else True) then
                  (case parseAuthority (fst (url_split (drop 2 rest) (CHR ''/'') False)) of
                     Inl err \<Rightarrow> Inl err
                   | Inr host \<Rightarrow>
                       (case unescape (snd (url_split (drop 2 rest) (CHR ''/'') False)) of
                          Inl err \<Rightarrow> Inl err
                        | Inr path \<Rightarrow> Inr (url\<lparr>Host := host, Path := path\<rparr>)))
                else
                  (case unescape rest of
                     Inl err \<Rightarrow> Inl err
                   | Inr path \<Rightarrow> Inr (url\<lparr>Path := path\<rparr>)))))"

definition Parse :: "string \<Rightarrow> error + URL" where
  "Parse rawurl =
     (case parse (fst (url_split rawurl (CHR ''#'') True)) of
        Inl err \<Rightarrow> Inl err
      | Inr url \<Rightarrow>
          if snd (url_split rawurl (CHR ''#'') True) = [] then Inr url
          else
            (case unescape (snd (url_split rawurl (CHR ''#'') True)) of
               Inl err \<Rightarrow> Inl err
             | Inr frag \<Rightarrow> Inr (url\<lparr>Fragment := frag\<rparr>)))"

section \<open>The message schema\<close>

text \<open>
  The records of the embed file and \<^verbatim>\<open>WebhookExecuteParams\<close>, field by field with the tags
  of the source. A pointer is an option, a slice a list (a nil slice and an empty one
  both have length 0, which is all the encoder asks). For every record \<open>R\<close>, \<open>encode_R\<close> is
  what the encoder writes for it, \<open>R_member\<close> what the decoder does with one member of an
  object, \<open>decode_R\<close> the decoder, and \<open>zero_R\<close> the zero value a fresh \<^verbatim>\<open>new(R)\<close>
  holds.

  A \<^verbatim>\<open>time.Time\<close> is kept as the text that \<^verbatim>\<open>Format(time.RFC3339Nano)\<close> gives for it, which
  is what \<^verbatim>\<open>Time.MarshalJSON\<close> writes between quotes. Go writes a year from 0 to 9999 with
  exactly four digits, a later year with more, an earlier one with a minus sign, and
  \<^verbatim>\<open>Time.MarshalJSON\<close> returns an error for a year outside 0 to 9999. This is the one way
  the encoder can fail on the records of this package; \<open>encode_Embed\<close> and
  \<open>encode_WebhookExecuteParams\<close>, which can hold a time, therefore return an error or a
  document. The model does not check that a decoded text is a date.
\<close>

type_synonym Time = string

definition year_in_range :: "Time \<Rightarrow> bool" where
  "year_in_range t = (length (takeWhile is_digit t) = 4)"

definition Time_MarshalJSON :: "Time \<Rightarrow> error + json" where
  "Time_MarshalJSON t =
     (if year_in_range t then Inr (JString t)
      else Inl (errorString ''Time.MarshalJSON: year outside of range [0,9999]''))"

definition Time_UnmarshalJSON :: "json \<Rightarrow> Time \<Rightarrow> error + Time" where
  "Time_UnmarshalJSON v cur =
     (case v of JString s \<Rightarrow> Inr s | _ \<Rightarrow> Inl (JsonError ''Time.UnmarshalJSON''))"

text \<open>A pointer whose target's encoder can fail: nil is \<^verbatim>\<open>null\<close>.\<close>

definition enc_ptr_err :: "('a \<Rightarrow> error + json) \<Rightarrow> 'a option \<Rightarrow> error + json" where
  "enc_ptr_err enc p = (case p of None \<Rightarrow> Inr JNull | Some x \<Rightarrow> enc x)"

record EmbedFooter =
  ft_Text :: string
  ft_IconURL :: string
  ft_ProxyIconURL :: string

definition zero_EmbedFooter :: EmbedFooter where
  "zero_EmbedFooter =
     \<lparr>ft_Text = [],
      ft_IconURL = [],
      ft_ProxyIconURL = []\<rparr>"

definition encode_EmbedFooter :: "EmbedFooter \<Rightarrow> json" where
  "encode_EmbedFooter x =
     JObject
      (string_field ''text'' (ft_Text x) @
       string_field ''icon_url,omitempty'' (ft_IconURL x) @
       string_field ''proxy_icon_url,omitempty'' (ft_ProxyIconURL x))"

definition EmbedFooter_member :: "string \<Rightarrow> json \<Rightarrow> EmbedFooter \<Rightarrow> error + EmbedFooter" where
  "EmbedFooter_member k v x =
     (if k = tag_name ''text'' then
        map_sum id (\<lambda>y. x\<lparr>ft_Text := y\<rparr>) (dec_string v)
      else if k = tag_name ''icon_url,omitempty'' then
        map_sum id (\<lambda>y. x\<lparr>ft_IconURL := y\<rparr>) (dec_string v)
      else if k = tag_name ''proxy_icon_url,omitempty'' then
        map_sum id (\<lambda>y. x\<lparr>ft_ProxyIconURL := y\<rparr>) (dec_string v)
      else Inr x)"

definition decode_EmbedFooter :: "json \<Rightarrow> EmbedFooter \<Rightarrow> error + EmbedFooter" where
  "decode_EmbedFooter v x = decode_struct EmbedFooter_member v x"

record EmbedImage =
  im_URL :: string
  im_ProxyURL :: string
  im_Height :: go_int
  im_Width :: go_int

definition zero_EmbedImage :: EmbedImage where
  "zero_EmbedImage =
     \<lparr>im_URL = [],
      im_ProxyURL = [],
      im_Height = 0,
      im_Width = 0\<rparr>"

definition encode_EmbedImage :: "EmbedImage \<Rightarrow> json" where
  "encode_EmbedImage x =
     JObject
      (string_field ''url,omitempty'' (im_URL x) @
       string_field ''proxy_url,omitempty'' (im_ProxyURL x) @
       int_field ''height,omitempty'' (im_Height x) @
       int_field ''width,omitempty'' (im_Width x))"

definition EmbedImage_member :: "string \<Rightarrow> json \<Rightarrow> EmbedImage \<Rightarrow> error + EmbedImage" where
  "EmbedImage_member k v x =
     (if k = tag_name ''url,omitempty'' then
        map_sum id (\<lambda>y. x\<lparr>im_URL := y\<rparr>) (dec_string v)
      else if k = tag_name ''proxy_url,omitempty'' then
        map_sum id (\<lambda>y. x\<lparr>im_ProxyURL := y\<rparr>) (dec_string v)
      else if k = tag_name ''height,omitempty'' then
        map_sum id (\<lambda>y. x\<lparr>im_Height := y\<rparr>) (dec_int v (im_Height x))
      else if k = tag_name ''width,omitempty'' then
        map_sum id (\<lambda>y. x\<lparr>im_Width := y\<rparr>) (dec_int v (im_Width x))
      else Inr x)"

definition decode_EmbedImage :: "json \<Rightarrow> EmbedImage \<Rightarrow> error + EmbedImage" where
  "decode_EmbedImage v x = decode_struct EmbedImage_member v x"

record EmbedThumbnail =
  th_URL :: string
  th_ProxyURL :: string
  th_Height :: go_int
  th_Width :: go_int

definition zero_EmbedThumbnail :: EmbedThumbnail where
  "zero_EmbedThumbnail =
     \<lparr>th_URL = [],
      th_ProxyURL = [],
      th_Height = 0,
      th_Width = 0\<rparr>"

definition encode_EmbedThumbnail :: "EmbedThumbnail \<Rightarrow> json" where
  "encode_EmbedThumbnail x =
     JObject
      (string_field ''url,omitempty'' (th_URL x) @
       string_field ''proxy_url,omitempty'' (th_ProxyURL x) @
       int_field ''height,omitempty'' (th_Height x) @
       int_field ''width,omitempty'' (th_Width x))"

definition EmbedThumbnail_member :: "string \<Rightarrow> json \<Rightarrow> EmbedThumbnail \<Rightarrow> error + EmbedThumbnail" where
  "EmbedThumbnail_member k v x =
     (if k = tag_name ''url,omitempty'' then
        map_sum id (\<lambda>y. x\<lparr>th_URL := y\<rparr>) (dec_string v)
      else if k = tag_name ''proxy_url,omitempty'' then
        map_sum id (\<lambda>y. x\<lparr>th_ProxyURL := y\<rparr>) (dec_string v)
      else if k = tag_name ''height,omitempty'' then
        map_sum id (\<lambda>y. x\<lparr>th_Height := y\<rparr>) (dec_int v (th_Height x))
      else if k = tag_name ''width,omitempty'' then
        map_sum id (\<lambda>y. x\<lparr>th_Width := y\<rparr>) (dec_int v (th_Width x))
      else Inr x)"

definition decode_EmbedThumbnail :: "json \<Rightarrow> EmbedThumbnail \<Rightarrow> error + EmbedThumbnail" where
  "decode_EmbedThumbnail v x = decode_struct EmbedThumbnail_member v x"

record EmbedVideo =
  vd_URL :: string
  vd_Height :: go_int
  vd_Width :: go_int

definition zero_EmbedVideo :: EmbedVideo where
  "zero_EmbedVideo =
     \<lparr>vd_URL = [],
      vd_Height = 0,
      vd_Width = 0\<rparr>"

definition encode_EmbedVideo :: "EmbedVideo \<Rightarrow> json" where
  "encode_EmbedVideo x =
     JObject
      (string_field ''url,omitempty'' (vd_URL x) @
       int_field ''height,omitempty'' (vd_Height x) @
       int_field ''width,omitempty'' (vd_Width x))"

definition EmbedVideo_member :: "string \<Rightarrow> json \<Rightarrow> EmbedVideo \<Rightarrow> error + EmbedVideo" where
  "EmbedVideo_member k v x =
     (if k = tag_name ''url,omitempty'' then
        map_sum id (\<lambda>y. x\<lparr>vd_URL := y\<rparr>) (dec_string v)
      else if k = tag_name ''height,omitempty'' then
        map_sum id (\<lambda>y. x\<lparr>vd_Height := y\<rparr>) (dec_int v (vd_Height x))
      else if k = tag_name ''width,omitempty'' then
        map_sum id (\<lambda>y. x\<lparr>vd_Width := y\<rparr>) (dec_int v (vd_Width x))
      else Inr x)"

definition decode_EmbedVideo :: "json \<Rightarrow> EmbedVideo \<Rightarrow> error + EmbedVideo" where
  "decode_EmbedVideo v x = decode_struct EmbedVideo_member v x"

record EmbedProvider =
  pr_Name :: string
  pr_URL :: string

definition zero_EmbedProvider :: EmbedProvider where
  "zero_EmbedProvider =
     \<lparr>pr_Name = [],
      pr_URL = []\<rparr>"

definition encode_EmbedProvider :: "EmbedProvider \<Rightarrow> json" where
  "encode_EmbedProvider x =
     JObject
      (string_field ''name,omitempty'' (pr_Name x) @
       string_field ''url,omitempty'' (pr_URL x))"

definition EmbedProvider_member :: "string \<Rightarrow> json \<Rightarrow> EmbedProvider \<Rightarrow> error + EmbedProvider" where
  "EmbedProvider_member k v x =
     (if k = tag_name ''name,omitempty'' then
        map_sum id (\<lambda>y. x\<lparr>pr_Name := y\<rparr>) (dec_string v)
      else if k = tag_name ''url,omitempty'' then
        map_sum id (\<lambda>y. x\<lparr>pr_URL := y\<rparr>) (dec_string v)
      else Inr x)"

definition decode_EmbedProvider :: "json \<Rightarrow> EmbedProvider \<Rightarrow> error + EmbedProvider" where
  "decode_EmbedProvider v x = decode_struct EmbedProvider_member v x"

record EmbedAuthor =
  au_Name :: string
  au_URL :: string
  au_IconURL :: string
  au_ProxyIconURL :: string

definition zero_EmbedAuthor :: EmbedAuthor where
  "zero_EmbedAuthor =
     \<lparr>au_Name = [],
      au_URL = [],
      au_IconURL = [],
      au_ProxyIconURL = []\<rparr>"

definition encode_EmbedAuthor :: "EmbedAuthor \<Rightarrow> json" where
  "encode_EmbedAuthor x =
     JObject
      (string_field ''name,omitempty'' (au_Name x) @
       string_field ''url,omitempty'' (au_URL x) @
       string_field ''icon_url,omitempty'' (au_IconURL x) @
       string_field ''proxy_icon_url,omitempty'' (au_ProxyIconURL x))"

definition EmbedAuthor_member :: "string \<Rightarrow> json \<Rightarrow> EmbedAuthor \<Rightarrow> error + EmbedAuthor" where
  "EmbedAuthor_member k v x =
     (if k = tag_name ''name,omitempty'' then
        map_sum id (\<lambda>y. x\<lparr>au_Name := y\<rparr>) (dec_string v)
      else if k = tag_name ''url,omitempty'' then
        map_sum id (\<lambda>y. x\<lparr>au_URL := y\<rparr>) (dec_string v)
      else if k = tag_name ''icon_url,omitempty'' then
        map_sum id (\<lambda>y. x\<lparr>au_IconURL := y\<rparr>) (dec_string v)
      else if k = tag_name ''proxy_icon_url,omitempty'' then
        map_sum id (\<lambda>y. x\<lparr>au_ProxyIconURL := y\<rparr>) (dec_string v)
      else Inr x)"

definition decode_EmbedAuthor :: "json \<Rightarrow> EmbedAuthor \<Rightarrow> error + EmbedAuthor" where
  "decode_EmbedAuthor v x = decode_struct EmbedAuthor_member v x"

record EmbedField =
  fl_Name :: string
  fl_Value :: string
  fl_Inline :: bool

definition zero_EmbedField :: EmbedField where
  "zero_EmbedField =
     \<lparr>fl_Name = [],
      fl_Value = [],
      fl_Inline = False\<rparr>"

definition encode_EmbedField :: "EmbedField \<Rightarrow> json" where
  "encode_EmbedField x =
     JObject
      (string_field ''name'' (fl_Name x) @
       string_field ''value'' (fl_Value x) @
       bool_field ''inline,omitempty'' (fl_Inline x))"

definition EmbedField_member :: "string \<Rightarrow> json \<Rightarrow> EmbedField \<Rightarrow> error + EmbedField" where
  "EmbedField_member k v x =
     (if k = tag_name ''name'' then
        map_sum id (\<lambda>y. x\<lparr>fl_Name := y\<rparr>) (dec_string v)
      else if k = tag_name ''value'' then
        map_sum id (\<lambda>y. x\<lparr>fl_Value := y\<rparr>) (dec_string v)
      else if k = tag_name ''inline,omitempty'' then
        map_sum id (\<lambda>y. x\<lparr>fl_Inline := y\<rparr>) (dec_bool v (fl_Inline x))
      else Inr x)"

definition decode_EmbedField :: "json \<Rightarrow> EmbedField \<Rightarrow> error + EmbedField" where
  "decode_EmbedField v x = decode_struct EmbedField_member v x"

record Embed =
  em_Title :: string
  em_Type :: string
  em_Description :: string
  em_URL :: string
  em_Timestamp :: "Time option"
  em_Color :: go_int
  em_Footer :: "EmbedFooter option"
  em_Image :: "EmbedImage option"
  em_Thumbnail :: "EmbedThumbnail option"
  em_Video :: "EmbedVideo option"
  em_Provider :: "EmbedProvider option"
  em_Author :: "EmbedAuthor option"
  em_Fields :: "EmbedField option list"

definition zero_Embed :: Embed where
  "zero_Embed =
     \<lparr>em_Title = [],
      em_Type = [],
      em_Description = [],
      em_URL = [],
      em_Timestamp = None,
      em_Color = 0,
      em_Footer = None,
      em_Image = None,
      em_Thumbnail = None,
      em_Video = None,
      em_Provider = None,
      em_Author = None,
      em_Fields = []\<rparr>"

definition encode_Embed :: "Embed \<Rightarrow> error + json" where
  "encode_Embed x =
     (case enc_ptr_err Time_MarshalJSON (em_Timestamp x) of
        Inl err \<Rightarrow> Inl err
      | Inr ts \<Rightarrow>
          Inr (JObject
                (string_field ''title,omitempty'' (em_Title x) @
                 string_field ''type,omitempty'' (em_Type x) @
                 string_field ''description,omitempty'' (em_Description x) @
                 string_field ''url,omitempty'' (em_URL x) @
                 field ''timestamp,omitempty'' (em_Timestamp x = None) ts @
                 int_field ''color,omitempty'' (em_Color x) @
                 ptr_field ''footer,omitempty'' encode_EmbedFooter (em_Footer x) @
                 ptr_field ''image,omitempty'' encode_EmbedImage (em_Image x) @
                 ptr_field ''thumbnail,omitempty'' encode_EmbedThumbnail (em_Thumbnail x) @
                 ptr_field ''video,omitempty'' encode_EmbedVideo (em_Video x) @
                 ptr_field ''provider,omitempty'' encode_EmbedProvider (em_Provider x) @
                 ptr_field ''author,omitempty'' encode_EmbedAuthor (em_Author x) @
                 slice_field ''fields,omitempty'' (enc_ptr encode_EmbedField) (em_Fields x))))"

definition Embed_member :: "string \<Rightarrow> json \<Rightarrow> Embed \<Rightarrow> error + Embed" where
  "Embed_member k v x =
     (if k = tag_name ''title,omitempty'' then
        map_sum id (\<lambda>y. x\<lparr>em_Title := y\<rparr>) (dec_string v)
      else if k = tag_name ''type,omitempty'' then
        map_sum id (\<lambda>y. x\<lparr>em_Type := y\<rparr>) (dec_string v)
      else if k = tag_name ''description,omitempty'' then
        map_sum id (\<lambda>y. x\<lparr>em_Description := y\<rparr>) (dec_string v)
      else if k = tag_name ''url,omitempty'' then
        map_sum id (\<lambda>y. x\<lparr>em_URL := y\<rparr>) (dec_string v)
      else if k = tag_name ''timestamp,omitempty'' then
        map_sum id (\<lambda>y. x\<lparr>em_Timestamp := y\<rparr>) (dec_ptr Time_UnmarshalJSON [] v (em_Timestamp x))
      else if k = tag_name ''color,omitempty'' then
        map_sum id (\<lambda>y. x\<lparr>em_Color := y\<rparr>) (dec_int v (em_Color x))
      else if k = tag_name ''footer,omitempty'' then
        map_sum id (\<lambda>y. x\<lparr>em_Footer := y\<rparr>) (dec_ptr decode_EmbedFooter zero_EmbedFooter v (em_Footer x))
      else if k = tag_name ''image,omitempty'' then
        map_sum id (\<lambda>y. x\<lparr>em_Image := y\<rparr>) (dec_ptr decode_EmbedImage zero_EmbedImage v (em_Image x))
      else if k = tag_name ''thumbnail,omitempty'' then
        map_sum id (\<lambda>y. x\<lparr>em_Thumbnail := y\<rparr>) (dec_ptr decode_EmbedThumbnail zero_EmbedThumbnail v (em_Thumbnail x))
      else if k = tag_name ''video,omitempty'' then
        map_sum id (\<lambda>y. x\<lparr>em_Video := y\<rparr>) (dec_ptr decode_EmbedVideo zero_EmbedVideo v (em_Video x))
      else if k = tag_name ''provider,omitempty'' then
        map_sum id (\<lambda>y. x\<lparr>em_Provider := y\<rparr>) (dec_ptr decode_EmbedProvider zero_EmbedProvider v (em_Provider x))
      else if k = tag_name ''author,omitempty'' then
        map_sum id (\<lambda>y. x\<lparr>em_Author := y\<rparr>) (dec_ptr decode_EmbedAuthor zero_EmbedAuthor v (em_Author x))
      else if k = tag_name ''fields,omitempty'' then
        map_sum id (\<lambda>y. x\<lparr>em_Fields := y\<rparr>) (dec_slice (\<lambda>e. dec_ptr decode_EmbedField zero_EmbedField e None) v)
      else Inr x)"

definition decode_Embed :: "json \<Rightarrow> Embed \<Rightarrow> error + Embed" where
  "decode_Embed v x = decode_struct Embed_member v x"

record AllowedMentions =
  am_Parse :: "string list"
  am_Roles :: "Snowflake list"
  am_Users :: "Snowflake list"

definition zero_AllowedMentions :: AllowedMentions where
  "zero_AllowedMentions =
     \<lparr>am_Parse = [],
      am_Roles = [],
      am_Users = []\<rparr>"

definition encode_AllowedMentions :: "AllowedMentions \<Rightarrow> json" where
  "encode_AllowedMentions x =
     JObject
      (slice_field ''parse,omitempty'' JString (am_Parse x) @
       slice_field ''roles,omitempty'' Snowflake_MarshalJSON (am_Roles x) @
       slice_field ''users,omitempty'' Snowflake_MarshalJSON (am_Users x))"

definition AllowedMentions_member :: "string \<Rightarrow> json \<Rightarrow> AllowedMentions \<Rightarrow> error + AllowedMentions" where
  "AllowedMentions_member k v x =
     (if k = tag_name ''parse,omitempty'' then
        map_sum id (\<lambda>y. x\<lparr>am_Parse := y\<rparr>) (dec_slice dec_string v)
      else if k = tag_name ''roles,omitempty'' then
        map_sum id (\<lambda>y. x\<lparr>am_Roles := y\<rparr>) (dec_slice Snowflake_UnmarshalJSON v)
      else if k = tag_name ''users,omitempty'' then
        map_sum id (\<lambda>y. x\<lparr>am_Users := y\<rparr>) (dec_slice Snowflake_UnmarshalJSON v)
      else Inr x)"

definition decode_AllowedMentions :: "json \<Rightarrow> AllowedMentions \<Rightarrow> error + AllowedMentions" where
  "decode_AllowedMentions v x = decode_struct AllowedMentions_member v x"

record WebhookExecuteParams =
  wep_Content :: string
  wep_Username :: string
  wep_AvatarURL :: string
  wep_TTS :: bool
  wep_Embeds :: "Embed option list"
  wep_AllowedMentions :: "AllowedMentions option"

definition zero_WebhookExecuteParams :: WebhookExecuteParams where
  "zero_WebhookExecuteParams =
     \<lparr>wep_Content = [],
      wep_Username = [],
      wep_AvatarURL = [],
      wep_TTS = False,
      wep_Embeds = [],
      wep_AllowedMentions = None\<rparr>"

definition encode_WebhookExecuteParams :: "WebhookExecuteParams \<Rightarrow> error + json" where
  "encode_WebhookExecuteParams x =
     (case traverse (enc_ptr_err encode_Embed) (wep_Embeds x) of
        Inl err \<Rightarrow> Inl err
      | Inr es \<Rightarrow>
          Inr (JObject
                (string_field ''content,omitempty'' (wep_Content x) @
                 string_field ''username,omitempty'' (wep_Username x) @
                 string_field ''avatar_url,omitempty'' (wep_AvatarURL x) @
                 bool_field ''tts,omitempty'' (wep_TTS x) @
                 field ''embeds,omitempty'' (wep_Embeds x = []) (JArray es) @
                 ptr_field ''allowed_mentions,omitempty'' encode_AllowedMentions (wep_AllowedMentions x))))"

definition WebhookExecuteParams_member :: "string \<Rightarrow> json \<Rightarrow> WebhookExecuteParams \<Rightarrow> error + WebhookExecuteParams" where
  "WebhookExecuteParams_member k v x =
     (if k = tag_name ''content,omitempty'' then
        map_sum id (\<lambda>y. x\<lparr>wep_Content := y\<rparr>) (dec_string v)
      else if k = tag_name ''username,omitempty'' then
        map_sum id (\<lambda>y. x\<lparr>wep_Username := y\<rparr>) (dec_string v)
      else if k = tag_name ''avatar_url,omitempty'' then
        map_sum id (\<lambda>y. x\<lparr>wep_AvatarURL := y\<rparr>) (dec_string v)
      else if k = tag_name ''tts,omitempty'' then
        map_sum id (\<lambda>y. x\<lparr>wep_TTS := y\<rparr>) (dec_bool v (wep_TTS x))
      else if k = tag_name ''embeds,omitempty'' then
        map_sum id (\<lambda>y. x\<lparr>wep_Embeds := y\<rparr>) (dec_slice (\<lambda>e. dec_ptr decode_Embed zero_Embed e None) v)
      else if k = tag_name ''allowed_mentions,omitempty'' then
        map_sum id (\<lambda>y. x\<lparr>wep_AllowedMentions := y\<rparr>) (dec_ptr decode_AllowedMentions zero_AllowedMentions v (wep_AllowedMentions x))
      else Inr x)"

definition decode_WebhookExecuteParams :: "json \<Rightarrow> WebhookExecuteParams \<Rightarrow> error + WebhookExecuteParams" where
  "decode_WebhookExecuteParams v x = decode_struct WebhookExecuteParams_member v x"

text \<open>
  \<^verbatim>\<open>Encoder.Encode(wep)\<close> as \<^verbatim>\<open>Execute\<close> calls it, on the pointer it was given. The
  parameters encode unless one of their embeds carries a time that cannot be marshalled
  (\<open>timestamps_ok\<close>).
\<close>

definition Encode_WebhookExecuteParams :: "WebhookExecuteParams option \<Rightarrow> error + json" where
  "Encode_WebhookExecuteParams wep = enc_ptr_err encode_WebhookExecuteParams wep"

definition timestamp_ok :: "Embed option \<Rightarrow> bool" where
  "timestamp_ok p =
     (case p of
        None \<Rightarrow> True
      | Some e \<Rightarrow> (case em_Timestamp e of None \<Rightarrow> True | Some t \<Rightarrow> year_in_range t))"

definition timestamps_ok :: "WebhookExecuteParams option \<Rightarrow> bool" where
  "timestamps_ok wep =
     (case wep of None \<Rightarrow> True | Some x \<Rightarrow> list_all timestamp_ok (wep_Embeds x))"

section \<open>Webhook metadata and messages\<close>

text \<open>
  \<^verbatim>\<open>WebhookModifyParams\<close>, with the tags as the source spells them. The package only ever
  encodes this record.
\<close>

record WebhookModifyParams =
  wmp_Name :: string
  wmp_Avatar :: string
  wmp_ChannelID :: Snowflake

definition encode_WebhookModifyParams :: "WebhookModifyParams \<Rightarrow> json" where
  "encode_WebhookModifyParams x =
     JObject
      (string_field ''name,omitemprty'' (wmp_Name x) @
       string_field ''avatar,omitemprty'' (wmp_Avatar x) @
       snowflake_field ''channel_id,omitemprty'' (wmp_ChannelID x))"

text \<open>
  Modelled from the spec: the \<^verbatim>\<open>User\<close> record, which \<^verbatim>\<open>Webhook\<close> points to, is not among the
  sources. The spec calls it an optional creator user reference; the model keeps the
  member's JSON value as it stands.
\<close>

type_synonym User = json

definition decode_User :: "json \<Rightarrow> User \<Rightarrow> error + User" where
  "decode_User v cur = Inr v"

text \<open>\<^verbatim>\<open>Webhook\<close>; \<^verbatim>\<open>WebhookType\<close> is an \<^verbatim>\<open>int\<close>. The package only ever decodes this record.\<close>

record Webhook =
  wh_ID :: Snowflake
  wh_Type :: go_int
  wh_GuildID :: Snowflake
  wh_ChannelID :: Snowflake
  wh_User :: "User option"
  wh_Name :: string
  wh_Avatar :: string
  wh_Token :: string

definition zero_Webhook :: Webhook where
  "zero_Webhook =
     \<lparr>wh_ID = 0, wh_Type = 0, wh_GuildID = 0, wh_ChannelID = 0, wh_User = None, wh_Name = [],
      wh_Avatar = [], wh_Token = []\<rparr>"

definition Webhook_member :: "string \<Rightarrow> json \<Rightarrow> Webhook \<Rightarrow> error + Webhook" where
  "Webhook_member k v x =
     (if k = tag_name ''id'' then
        map_sum id (\<lambda>y. x\<lparr>wh_ID := y\<rparr>) (Snowflake_UnmarshalJSON v)
      else if k = tag_name ''type'' then
        map_sum id (\<lambda>y. x\<lparr>wh_Type := y\<rparr>) (dec_int v (wh_Type x))
      else if k = tag_name ''guild_id,omitempty'' then
        map_sum id (\<lambda>y. x\<lparr>wh_GuildID := y\<rparr>) (Snowflake_UnmarshalJSON v)
      else if k = tag_name ''channel_id'' then
        map_sum id (\<lambda>y. x\<lparr>wh_ChannelID := y\<rparr>) (Snowflake_UnmarshalJSON v)
      else if k = tag_name ''user,omitempty'' then
        map_sum id (\<lambda>y. x\<lparr>wh_User := y\<rparr>) (dec_ptr decode_User JNull v (wh_User x))
      else if k = tag_name ''name,omitempty'' then
        map_sum id (\<lambda>y. x\<lparr>wh_Name := y\<rparr>) (dec_string v)
      else if k = tag_name ''avatar,omitempty'' then
        map_sum id (\<lambda>y. x\<lparr>wh_Avatar := y\<rparr>) (dec_string v)
      else if k = tag_name ''token,omitempty'' then
        map_sum id (\<lambda>y. x\<lparr>wh_Token := y\<rparr>) (dec_string v)
      else Inr x)"

definition decode_Webhook :: "json \<Rightarrow> Webhook \<Rightarrow> error + Webhook" where
  "decode_Webhook v x = decode_struct Webhook_member v x"

text \<open>
  Modelled from the spec: the \<^verbatim>\<open>Message\<close> record is not among the sources. The spec
  describes it as the server-returned record of a posted message, with its assigned
  numeric ID and associated fields; the model keeps the ID, read from the member
  \<^verbatim>\<open>id\<close> as the other identifiers of the package are, and skips every other member.
\<close>

record Message =
  msg_ID :: Snowflake

definition zero_Message :: Message where
  "zero_Message = \<lparr>msg_ID = 0\<rparr>"

definition Message_member :: "string \<Rightarrow> json \<Rightarrow> Message \<Rightarrow> error + Message" where
  "Message_member k v x =
     (if k = tag_name ''id'' then
        map_sum id (\<lambda>y. x\<lparr>msg_ID := y\<rparr>) (Snowflake_UnmarshalJSON v)
      else Inr x)"

definition decode_Message :: "json \<Rightarrow> Message \<Rightarrow> error + Message" where
  "decode_Message v x = decode_struct Message_member v x"

section \<open>HTTP\<close>

text \<open>
  A multipart form is kept as its boundary and its parts, a part as the form field's
  name, the file name and content type it declares, and what was written into it.
  \<^verbatim>\<open>CreateFormField\<close> and \<^verbatim>\<open>CreateFormFile\<close> are the two ways of \<^verbatim>\<open>multipart.Writer\<close> to
  open a part. The writer's boundary is random: it is an argument of the model.
\<close>

datatype Content =
    JsonText json
  | Bytes string

record Part =
  part_name :: string
  part_filename :: "string option"
  part_type :: "string option"
  part_content :: Content

definition CreateFormField :: "string \<Rightarrow> Content \<Rightarrow> Part" where
  "CreateFormField fieldname c =
     \<lparr>part_name = fieldname, part_filename = None, part_type = None, part_content = c\<rparr>"

definition CreateFormFile :: "string \<Rightarrow> string \<Rightarrow> Content \<Rightarrow> Part" where
  "CreateFormFile fieldname filename c =
     \<lparr>part_name = fieldname, part_filename = Some filename,
      part_type = Some ''application/octet-stream'', part_content = c\<rparr>"

definition FormDataContentType :: "string \<Rightarrow> string" where
  "FormDataContentType boundary = ''multipart/form-data; boundary='' @ boundary"

datatype Payload =
    JsonBody json
  | Multipart string "Part list"

record Request =
  req_Method :: string
  req_URL :: URL
  req_Header :: "(string \<times> string list) list"
  req_Body :: "Payload option"
  req_ctx :: "Context option"

definition WithContext :: "Request \<Rightarrow> Context \<Rightarrow> Request" where
  "WithContext req ctx = req\<lparr>req_ctx := Some ctx\<rparr>"

record Response =
  StatusCode :: int
  Body :: Reader

text \<open>
  \<^verbatim>\<open>http.Client.Do\<close>: the transport is the caller's, so the model takes it as a function
  from the request to a response or an error.
\<close>

type_synonym Client = "Request \<Rightarrow> error + Response"

section \<open>The endpoint client\<close>

record WebhookAPI =
  wa_URL :: URL
  wa_Client :: Client
  wa_Wait :: bool

text \<open>
  \<^verbatim>\<open>NewWebhookAPI\<close>. \<open>DefaultClient\<close> is \<^verbatim>\<open>http.DefaultClient\<close>, the process-wide client that
  stands in for a nil \<open>client\<close>.
\<close>

definition NewWebhookAPI ::
  "Client \<Rightarrow> Snowflake \<Rightarrow> string \<Rightarrow> bool \<Rightarrow> Client option \<Rightarrow> error + WebhookAPI" where
  "NewWebhookAPI DefaultClient webhookID webhookToken wait client =
     (case Parse (''https://discord.com/api/webhooks/'' @ FormatUint webhookID @ ''/'' @
                  webhookToken @ ''?wait='' @ FormatBool wait) of
        Inl err \<Rightarrow> Inl err
      | Inr u \<Rightarrow>
          Inr \<lparr>wa_URL = u,
               wa_Client = (case client of None \<Rightarrow> DefaultClient | Some c \<Rightarrow> c),
               wa_Wait = wait\<rparr>)"

text \<open>
  The four operations take the client by pointer. Each is modelled as a function that
  returns its result together with the client as the call leaves it. A Go result
  \<^verbatim>\<open>(value, error)\<close> is a sum; where the source returns \<^verbatim>\<open>nil, nil\<close> the value is \<open>None\<close>.

  Each operation is written in the two halves of its source: \<open>_request\<close> builds the
  request, \<open>_response\<close> reads the transport's answer; between them stands the one call
  \<^verbatim>\<open>wa.Client.Do(req)\<close>.

  \<open>Execute_request\<close> is the first half of \<^verbatim>\<open>Execute\<close>, up to the request it hands to the
  transport: the form with the part \<^verbatim>\<open>payload_json\<close>, then the part \<^verbatim>\<open>file\<close> when \<open>file\<close> is
  not nil, and the context when \<open>ctx\<close> is not nil. A nil \<open>wep\<close> is encoded as \<^verbatim>\<open>null\<close>.
  The half returns early on the encoder's error and then on the file reader's, in the
  order of the source. Opening a part and closing the form write into a buffer in
  memory, which does not fail, so those three error returns of the source have no
  branch here.
\<close>

definition Execute_request ::
  "string \<Rightarrow> WebhookAPI \<Rightarrow> Context option \<Rightarrow> WebhookExecuteParams option \<Rightarrow> Reader option \<Rightarrow> string \<Rightarrow>
   error + Request" where
  "Execute_request boundary wa ctx wep file filename =
     (case Encode_WebhookExecuteParams wep of
        Inl err \<Rightarrow> Inl err
      | Inr payload \<Rightarrow>
          (let payloadPart = CreateFormField ''payload_json'' (JsonText payload) in
           case (case file of
                   None \<Rightarrow> Inr [payloadPart]
                 | Some f \<Rightarrow>
                     (case Copy f of
                        Inl err \<Rightarrow> Inl err
                      | Inr b \<Rightarrow> Inr [payloadPart, CreateFormFile ''file'' filename (Bytes b)])) of
             Inl err \<Rightarrow> Inl err
           | Inr parts \<Rightarrow>
               Inr (let req =
                          \<lparr>req_Method = ''POST'',
                           req_URL = wa_URL wa,
                           req_Header = [(''Content-Type'', [FormDataContentType boundary])],
                           req_Body = Some (Multipart boundary parts),
                           req_ctx = None\<rparr>
                    in case ctx of None \<Rightarrow> req | Some c \<Rightarrow> WithContext req c)))"

text \<open>
  \<open>Execute_response\<close> is the second half: the status test, the body of an unaccepted
  response turned into an error, and the decoding that the client's \<open>Wait\<close> flag asks for.
\<close>

definition Execute_response :: "WebhookAPI \<Rightarrow> Response \<Rightarrow> (error + Message option) \<times> WebhookAPI" where
  "Execute_response wa res =
     (if StatusCode res \<noteq> 200 \<and> StatusCode res \<noteq> 201 \<and> StatusCode res \<noteq> 204 then
        (case ReadAll (Body res) of
           Inl err \<Rightarrow> (Inl err, wa)
         | Inr b \<Rightarrow> (Inl (errorString b), wa))
      else if wa_Wait wa then
        (case Decode decode_Message (Body res) zero_Message of
           Inl err \<Rightarrow> (Inl err, wa)
         | Inr msg \<Rightarrow> (Inr (Some msg), wa))
      else (Inr None, wa))"

definition Execute ::
  "string \<Rightarrow> WebhookAPI \<Rightarrow> Context option \<Rightarrow> WebhookExecuteParams option \<Rightarrow> Reader option \<Rightarrow> string \<Rightarrow>
   (error + Message option) \<times> WebhookAPI" where
  "Execute boundary wa ctx wep file filename =
     (case Execute_request boundary wa ctx wep file filename of
        Inl err \<Rightarrow> (Inl err, wa)
      | Inr req \<Rightarrow>
          (case wa_Client wa req of
             Inl err \<Rightarrow> (Inl err, wa)
           | Inr res \<Rightarrow> Execute_response wa res))"

definition Get_request :: "WebhookAPI \<Rightarrow> Context option \<Rightarrow> Request" where
  "Get_request wa ctx =
     (let req =
            \<lparr>req_Method = ''GET'', req_URL = wa_URL wa, req_Header = [], req_Body = None,
             req_ctx = None\<rparr>
      in case ctx of None \<Rightarrow> req | Some c \<Rightarrow> WithContext req c)"

definition Get_response :: "WebhookAPI \<Rightarrow> Response \<Rightarrow> (error + Webhook) \<times> WebhookAPI" where
  "Get_response wa res =
     (if StatusCode res \<noteq> 200 then
        (case ReadAll (Body res) of
           Inl err \<Rightarrow> (Inl err, wa)
         | Inr b \<Rightarrow> (Inl (errorString b), wa))
      else
        (case Decode decode_Webhook (Body res) zero_Webhook of
           Inl err \<Rightarrow> (Inl err, wa)
         | Inr wh \<Rightarrow> (Inr wh, wa)))"

definition Get :: "WebhookAPI \<Rightarrow> Context option \<Rightarrow> (error + Webhook) \<times> WebhookAPI" where
  "Get wa ctx =
     (case wa_Client wa (Get_request wa ctx) of
        Inl err \<Rightarrow> (Inl err, wa)
      | Inr res \<Rightarrow> Get_response wa res)"

text \<open>
  \<^verbatim>\<open>Modify\<close> encodes \<^verbatim>\<open>WebhookModifyParams\<close>, two strings and an identifier, none of which
  the encoder can fail on: the error return after \<^verbatim>\<open>Encode(wmp)\<close> has no branch here.
\<close>

definition Modify_request :: "WebhookAPI \<Rightarrow> Context option \<Rightarrow> WebhookModifyParams option \<Rightarrow> Request" where
  "Modify_request wa ctx wmp =
     (let req =
            \<lparr>req_Method = ''PATCH'',
             req_URL = wa_URL wa,
             req_Header = [(''Content-Type'', [''application/json''])],
             req_Body = Some (JsonBody (enc_ptr encode_WebhookModifyParams wmp)),
             req_ctx = None\<rparr>
      in case ctx of None \<Rightarrow> req | Some c \<Rightarrow> WithContext req c)"

definition Modify_response :: "WebhookAPI \<Rightarrow> Response \<Rightarrow> (error + Webhook) \<times> WebhookAPI" where
  "Modify_response wa res =
     (if StatusCode res \<noteq> 200 \<and> StatusCode res \<noteq> 304 then
        (case ReadAll (Body res) of
           Inl err \<Rightarrow> (Inl err, wa)
         | Inr b \<Rightarrow> (Inl (errorString b), wa))
      else
        (case Decode decode_Webhook (Body res) zero_Webhook of
           Inl err \<Rightarrow> (Inl err, wa)
         | Inr wh \<Rightarrow> (Inr wh, wa)))"

definition Modify ::
  "WebhookAPI \<Rightarrow> Context option \<Rightarrow> WebhookModifyParams option \<Rightarrow> (error + Webhook) \<times> WebhookAPI" where
  "Modify wa ctx wmp =
     (case wa_Client wa (Modify_request wa ctx wmp) of
        Inl err \<Rightarrow> (Inl err, wa)
      | Inr res \<Rightarrow> Modify_response wa res)"

text \<open>\<^verbatim>\<open>Delete\<close> takes \<open>ctx\<close> and builds its request without it.\<close>

definition Delete_request :: "WebhookAPI \<Rightarrow> Context option \<Rightarrow> Request" where
  "Delete_request wa ctx =
     \<lparr>req_Method = ''DELETE'', req_URL = wa_URL wa, req_Header = [], req_Body = None,
      req_ctx = None\<rparr>"

definition Delete_response :: "WebhookAPI \<Rightarrow> Response \<Rightarrow> error option \<times> WebhookAPI" where
  "Delete_response wa res =
     (if StatusCode res \<noteq> 204 \<and> StatusCode res \<noteq> 200 then
        (case ReadAll (Body res) of
           Inl err \<Rightarrow> (Some err, wa)
         | Inr b \<Rightarrow> (Some (errorString b), wa))
      else (None, wa))"

definition Delete :: "WebhookAPI \<Rightarrow> Context option \<Rightarrow> error option \<times> WebhookAPI" where
  "Delete wa ctx =
     (case wa_Client wa (Delete_request wa ctx) of
        Inl err \<Rightarrow> (Some err, wa)
      | Inr res \<Rightarrow> Delete_response wa res)"

text \<open>
  A transport that honours the context of the request it is given, as the standard
  transport does: a request whose context is done is not sent, and fails with the
  context's error (which \<^verbatim>\<open>http.Client\<close> wraps in a \<^verbatim>\<open>*url.Error\<close>; the model hands it on
  bare).
\<close>

definition honour_context :: "Client \<Rightarrow> Client" where
  "honour_context transport req =
     (case req_ctx req of
        None \<Rightarrow> transport req
      | Some c \<Rightarrow> (case ctx_Err c of None \<Rightarrow> transport req | Some e \<Rightarrow> Inl e))"

text \<open>A transport that answers every request with the same response, for the examples.\<close>

definition reply :: "Response \<Rightarrow> Client" where
  "reply res req = Inr res"

definition json_keys :: "json \<Rightarrow> string list" where
  "json_keys v = (case v of JObject kvs \<Rightarrow> map fst kvs | _ \<Rightarrow> [])"

section \<open>Basic facts\<close>

lemma parse_json_Nil: "parse_json [] = None"
  by (simp add: parse_json_def skip_ws_def)

lemma Decode_empty: "rd_bytes r = [] \<Longrightarrow> Decode dec r obj = Inl EOF"
  by (simp add: Decode_def)

lemma digit_char_simps:
  "digit_char 0 = CHR ''0''" "digit_char 1 = CHR ''1''" "digit_char 2 = CHR ''2''"
  "digit_char 3 = CHR ''3''" "digit_char 4 = CHR ''4''" "digit_char 5 = CHR ''5''"
  "digit_char 6 = CHR ''6''" "digit_char 7 = CHR ''7''" "digit_char 8 = CHR ''8''"
  "digit_char 9 = CHR ''9''" "digit_char (Suc 0) = CHR ''1''"
  by (simp_all add: digit_char_def char_of_def bit_0 bit_Suc numeral_2_eq_2 [symmetric])

lemma digit_char_digit: "d < 10 \<Longrightarrow> is_digit (digit_char d)"
  by (simp add: is_digit_def digit_char_def)

lemma digit_val_digit_char: "d < 10 \<Longrightarrow> digit_val (digit_char d) = d"
  by (simp add: digit_val_def digit_char_def)

lemma digits_of_not_Nil: "digits_of n \<noteq> []"
  by (subst digits_of.simps) simp

lemma digits_of_digits: "list_all is_digit (digits_of n)"
proof (induction n rule: digits_of.induct)
  case (1 n)
  show ?case
  proof (cases "n < 10")
    case True
    then show ?thesis by (subst digits_of.simps) (simp add: digit_char_digit)
  next
    case False
    then have "list_all is_digit (digits_of (n div 10))" by (rule "1.IH")
    with False show ?thesis by (subst digits_of.simps) (simp add: digit_char_digit)
  qed
qed

lemma read_nat_snoc: "read_nat (ds @ [d]) = 10 * read_nat ds + digit_val d"
  by (simp add: read_nat_def)

lemma read_nat_digits_of: "read_nat (digits_of n) = n"
proof (induction n rule: digits_of.induct)
  case (1 n)
  show ?case
  proof (cases "n < 10")
    case True
    then show ?thesis
      by (subst digits_of.simps) (simp add: read_nat_def digit_val_digit_char)
  next
    case False
    then have "read_nat (digits_of (n div 10)) = n div 10" by (rule "1.IH")
    with False show ?thesis
      by (subst digits_of.simps) (simp add: read_nat_snoc digit_val_digit_char)
  qed
qed

text \<open>An identifier survives the trip through its JSON form.\<close>

lemma snowflake_roundtrip: "Snowflake_UnmarshalJSON (Snowflake_MarshalJSON s) = Inr s"
proof -
  have "unat s < 2 ^ 64" using unsigned_less [of s, where ?'a = nat] by simp
  then show ?thesis
    by (simp add: Snowflake_UnmarshalJSON_def Snowflake_MarshalJSON_def FormatUint_def
        digits_of_not_Nil digits_of_digits read_nat_digits_of)
qed

lemma to_lower_simps:
  "to_lower CHR ''a'' = CHR ''a''" "to_lower CHR ''b'' = CHR ''b''" "to_lower CHR ''c'' = CHR ''c''"
  "to_lower CHR ''d'' = CHR ''d''" "to_lower CHR ''e'' = CHR ''e''" "to_lower CHR ''f'' = CHR ''f''"
  "to_lower CHR ''g'' = CHR ''g''" "to_lower CHR ''h'' = CHR ''h''" "to_lower CHR ''i'' = CHR ''i''"
  "to_lower CHR ''j'' = CHR ''j''" "to_lower CHR ''k'' = CHR ''k''" "to_lower CHR ''l'' = CHR ''l''"
  "to_lower CHR ''m'' = CHR ''m''" "to_lower CHR ''n'' = CHR ''n''" "to_lower CHR ''o'' = CHR ''o''"
  "to_lower CHR ''p'' = CHR ''p''" "to_lower CHR ''q'' = CHR ''q''" "to_lower CHR ''r'' = CHR ''r''"
  "to_lower CHR ''s'' = CHR ''s''" "to_lower CHR ''t'' = CHR ''t''" "to_lower CHR ''u'' = CHR ''u''"
  "to_lower CHR ''v'' = CHR ''v''" "to_lower CHR ''w'' = CHR ''w''" "to_lower CHR ''x'' = CHR ''x''"
  "to_lower CHR ''y'' = CHR ''y''" "to_lower CHR ''z'' = CHR ''z''" "to_lower CHR ''_'' = CHR ''_''"
  by (simp_all add: to_lower_def)

lemma to_lower_id: "map to_lower ''id'' = ''id''" "tag_name ''id'' = ''id''"
  by (simp_all add: to_lower_def tag_name_def tag_parts_def)

lemma Message_members_no_id:
  "filter (\<lambda>kv. map to_lower (fst kv) = ''id'') kvs = [] \<Longrightarrow>
   decode_members Message_member kvs a = Inr a"
proof (induction kvs arbitrary: a)
  case Nil
  then show ?case by simp
next
  case (Cons kv kvs)
  obtain k v where kv: "kv = (k, v)" by (cases kv)
  from Cons.prems kv have k: "map to_lower k \<noteq> ''id''"
    and rest: "filter (\<lambda>kv. map to_lower (fst kv) = ''id'') kvs = []"
    by (auto split: if_splits)
  from k have "Message_member (map to_lower k) v a = Inr a"
    by (simp add: Message_member_def to_lower_id)
  with Cons.IH [OF rest] kv show ?case by simp
qed

lemma Message_members_one_id:
  "map snd (filter (\<lambda>kv. map to_lower (fst kv) = ''id'') kvs) = [w] \<Longrightarrow>
   Snowflake_UnmarshalJSON w = Inr n \<Longrightarrow>
   decode_members Message_member kvs a = Inr (a\<lparr>msg_ID := n\<rparr>)"
proof (induction kvs arbitrary: a)
  case Nil
  then show ?case by simp
next
  case (Cons kv kvs)
  obtain k v where kv: "kv = (k, v)" by (cases kv)
  show ?case
  proof (cases "map to_lower k = ''id''")
    case True
    with Cons.prems(1) kv have v: "v = w"
      and rest: "filter (\<lambda>kv. map to_lower (fst kv) = ''id'') kvs = []"
      by auto
    from True v Cons.prems(2) have "Message_member (map to_lower k) v a = Inr (a\<lparr>msg_ID := n\<rparr>)"
      by (simp add: Message_member_def to_lower_id)
    with Message_members_no_id [OF rest] kv show ?thesis by simp
  next
    case False
    with Cons.prems(1) kv
    have rest: "map snd (filter (\<lambda>kv. map to_lower (fst kv) = ''id'') kvs) = [w]"
      by simp
    from False have "Message_member (map to_lower k) v a = Inr a"
      by (simp add: Message_member_def to_lower_id)
    with Cons.IH [OF rest Cons.prems(2)] kv show ?thesis by simp
  qed
qed

section \<open>Encoding and decoding the execute parameters\<close>

text \<open>
  Decoding what the encoder wrote gives the record back, for every record of the
  schema. One member is absorbed at a time: a field that was written is read back, and
  a field that was left out was empty and is still at its zero value.
\<close>

lemma field_absorb:
  assumes "f (map to_lower (tag_name tag)) v a = Inr a'"
    and "tag_omitempty tag \<Longrightarrow> emp \<Longrightarrow> a' = a"
  shows "decode_members f (field tag emp v @ rest) a = decode_members f rest a'"
  using assms by (auto simp: field_def)

lemma field_absorb_last:
  assumes "f (map to_lower (tag_name tag)) v a = Inr a'"
    and "tag_omitempty tag \<Longrightarrow> emp \<Longrightarrow> a' = a"
  shows "decode_members f (field tag emp v) a = Inr a'"
  using assms by (auto simp: field_def)

lemma traverse_map:
  assumes "\<And>x. f (g x) = Inr x"
  shows "traverse f (map g xs) = Inr xs"
  by (induction xs) (simp_all add: assms)

lemma dec_ptr_enc_ptr:
  assumes "\<And>x. dec (enc x) zero = Inr x" and "\<And>x. enc x \<noteq> JNull"
  shows "dec_ptr dec zero (enc_ptr enc p) None = Inr p"
proof (cases p)
  case None
  then show ?thesis by (simp add: dec_ptr_def enc_ptr_def)
next
  case (Some x)
  have "enc x \<noteq> JNull" by (rule assms(2))
  then show ?thesis using Some assms(1) [of x]
    by (cases "enc x") (simp_all add: dec_ptr_def enc_ptr_def)
qed

lemma dec_int_sint: "dec_int (JNumber (sint i)) j = Inr i"
proof -
  have "- (2 ^ 63) \<le> sint i" using sint_ge [of i] by simp
  moreover have "sint i < 2 ^ 63" using sint_lt [of i] by simp
  ultimately show ?thesis by (simp add: dec_int_def)
qed

lemma codec_simps:
  "dec_string (JString s) = Inr s"
  "dec_bool (JBool b) c = Inr b"
  "dec_int (JNumber (sint i)) j = Inr i"
  "dec_slice dec_string (JArray (map JString ss)) = Inr ss"
  "dec_slice Snowflake_UnmarshalJSON (JArray (map Snowflake_MarshalJSON ws)) = Inr ws"
    apply (simp_all add: dec_string_def dec_bool_def dec_int_sint dec_slice_def)
   apply (rule traverse_map; simp add: dec_string_def)
  apply (rule traverse_map; simp add: snowflake_roundtrip)
  done

lemma dec_time_enc_time:
  "enc_ptr_err Time_MarshalJSON p = Inr ts \<Longrightarrow> dec_ptr Time_UnmarshalJSON [] ts None = Inr p"
  by (cases p)
     (auto simp add: enc_ptr_err_def Time_MarshalJSON_def dec_ptr_def Time_UnmarshalJSON_def
        split: if_splits)

lemma traverse_roundtrip:
  assumes "traverse enc xs = Inr js" and "\<And>x j. enc x = Inr j \<Longrightarrow> dec j = Inr x"
  shows "traverse dec js = Inr xs"
  using assms(1)
proof (induction xs arbitrary: js)
  case Nil
  then show ?case by simp
next
  case (Cons x xs)
  then obtain j js' where j: "enc x = Inr j" and js': "traverse enc xs = Inr js'" and js: "js = j # js'"
    by (auto split: sum.splits)
  from assms(2) [OF j] Cons.IH [OF js'] js show ?case by simp
qed

lemma dec_ptr_enc_ptr_err:
  assumes "enc_ptr_err enc p = Inr j"
    and "\<And>x j. enc x = Inr j \<Longrightarrow> dec j zero = Inr x"
    and "\<And>x j. enc x = Inr j \<Longrightarrow> j \<noteq> JNull"
  shows "dec_ptr dec zero j None = Inr p"
proof (cases p)
  case None
  with assms(1) show ?thesis by (simp add: dec_ptr_def enc_ptr_err_def)
next
  case (Some x)
  with assms(1) have e: "enc x = Inr j" by (simp add: enc_ptr_err_def)
  from assms(3) [OF e] assms(2) [OF e] Some show ?thesis
    by (cases j) (simp_all add: dec_ptr_def)
qed

lemma tag_simps:
  "tag_name ''text'' = ''text''"
  "tag_omitempty ''text'' = False"
  "tag_name ''icon_url,omitempty'' = ''icon_url''"
  "tag_omitempty ''icon_url,omitempty'' = True"
  "tag_name ''proxy_icon_url,omitempty'' = ''proxy_icon_url''"
  "tag_omitempty ''proxy_icon_url,omitempty'' = True"
  "tag_name ''url,omitempty'' = ''url''"
  "tag_omitempty ''url,omitempty'' = True"
  "tag_name ''proxy_url,omitempty'' = ''proxy_url''"
  "tag_omitempty ''proxy_url,omitempty'' = True"
  "tag_name ''height,omitempty'' = ''height''"
  "tag_omitempty ''height,omitempty'' = True"
  "tag_name ''width,omitempty'' = ''width''"
  "tag_omitempty ''width,omitempty'' = True"
  "tag_name ''name,omitempty'' = ''name''"
  "tag_omitempty ''name,omitempty'' = True"
  "tag_name ''name'' = ''name''"
  "tag_omitempty ''name'' = False"
  "tag_name ''value'' = ''value''"
  "tag_omitempty ''value'' = False"
  "tag_name ''inline,omitempty'' = ''inline''"
  "tag_omitempty ''inline,omitempty'' = True"
  "tag_name ''title,omitempty'' = ''title''"
  "tag_omitempty ''title,omitempty'' = True"
  "tag_name ''type,omitempty'' = ''type''"
  "tag_omitempty ''type,omitempty'' = True"
  "tag_name ''description,omitempty'' = ''description''"
  "tag_omitempty ''description,omitempty'' = True"
  "tag_name ''timestamp,omitempty'' = ''timestamp''"
  "tag_omitempty ''timestamp,omitempty'' = True"
  "tag_name ''color,omitempty'' = ''color''"
  "tag_omitempty ''color,omitempty'' = True"
  "tag_name ''footer,omitempty'' = ''footer''"
  "tag_omitempty ''footer,omitempty'' = True"
  "tag_name ''image,omitempty'' = ''image''"
  "tag_omitempty ''image,omitempty'' = True"
  "tag_name ''thumbnail,omitempty'' = ''thumbnail''"
  "tag_omitempty ''thumbnail,omitempty'' = True"
  "tag_name ''video,omitempty'' = ''video''"
  "tag_omitempty ''video,omitempty'' = True"
  "tag_name ''provider,omitempty'' = ''provider''"
  "tag_omitempty ''provider,omitempty'' = True"
  "tag_name ''author,omitempty'' = ''author''"
  "tag_omitempty ''author,omitempty'' = True"
  "tag_name ''fields,omitempty'' = ''fields''"
  "tag_omitempty ''fields,omitempty'' = True"
  "tag_name ''parse,omitempty'' = ''parse''"
  "tag_omitempty ''parse,omitempty'' = True"
  "tag_name ''roles,omitempty'' = ''roles''"
  "tag_omitempty ''roles,omitempty'' = True"
  "tag_name ''users,omitempty'' = ''users''"
  "tag_omitempty ''users,omitempty'' = True"
  "tag_name ''content,omitempty'' = ''content''"
  "tag_omitempty ''content,omitempty'' = True"
  "tag_name ''username,omitempty'' = ''username''"
  "tag_omitempty ''username,omitempty'' = True"
  "tag_name ''avatar_url,omitempty'' = ''avatar_url''"
  "tag_omitempty ''avatar_url,omitempty'' = True"
  "tag_name ''tts,omitempty'' = ''tts''"
  "tag_omitempty ''tts,omitempty'' = True"
  "tag_name ''embeds,omitempty'' = ''embeds''"
  "tag_omitempty ''embeds,omitempty'' = True"
  "tag_name ''allowed_mentions,omitempty'' = ''allowed_mentions''"
  "tag_omitempty ''allowed_mentions,omitempty'' = True"
  by (simp_all add: tag_name_def tag_omitempty_def tag_parts_def)

lemma decode_encode_EmbedFooter: "decode_EmbedFooter (encode_EmbedFooter x) zero_EmbedFooter = Inr x"
proof -
  have "decode_members EmbedFooter_member
          (string_field ''text'' (ft_Text x) @
          string_field ''icon_url,omitempty'' (ft_IconURL x) @
          string_field ''proxy_icon_url,omitempty'' (ft_ProxyIconURL x))
          (zero_EmbedFooter) =
        decode_members EmbedFooter_member
          (string_field ''icon_url,omitempty'' (ft_IconURL x) @
          string_field ''proxy_icon_url,omitempty'' (ft_ProxyIconURL x))
          (zero_EmbedFooter\<lparr>ft_Text := ft_Text x\<rparr>)"
    unfolding string_field_def
    by (rule field_absorb)
       (simp_all add: EmbedFooter_member_def zero_EmbedFooter_def tag_simps to_lower_simps codec_simps)
  also have "\<dots> =
        decode_members EmbedFooter_member
          (string_field ''proxy_icon_url,omitempty'' (ft_ProxyIconURL x))
          (zero_EmbedFooter\<lparr>ft_Text := ft_Text x, ft_IconURL := ft_IconURL x\<rparr>)"
    unfolding string_field_def
    by (rule field_absorb)
       (simp_all add: EmbedFooter_member_def zero_EmbedFooter_def tag_simps to_lower_simps codec_simps)
  also have "\<dots> =
        Inr (zero_EmbedFooter\<lparr>ft_Text := ft_Text x, ft_IconURL := ft_IconURL x, ft_ProxyIconURL := ft_ProxyIconURL x\<rparr>)"
    unfolding string_field_def
    by (rule field_absorb_last)
       (simp_all add: EmbedFooter_member_def zero_EmbedFooter_def tag_simps to_lower_simps codec_simps)
  finally show ?thesis
    by (simp add: decode_EmbedFooter_def encode_EmbedFooter_def decode_struct_def zero_EmbedFooter_def)
qed

lemma dec_ptr_EmbedFooter:
  "dec_ptr decode_EmbedFooter zero_EmbedFooter (enc_ptr encode_EmbedFooter p) None = Inr p"
  by (rule dec_ptr_enc_ptr) (rule decode_encode_EmbedFooter, simp add: encode_EmbedFooter_def)

lemma dec_slice_EmbedFooter:
  "dec_slice (\<lambda>e. dec_ptr decode_EmbedFooter zero_EmbedFooter e None) (JArray (map (enc_ptr encode_EmbedFooter) ps)) = Inr ps"
  by (simp add: dec_slice_def traverse_map dec_ptr_EmbedFooter)

lemma decode_encode_EmbedImage: "decode_EmbedImage (encode_EmbedImage x) zero_EmbedImage = Inr x"
proof -
  have "decode_members EmbedImage_member
          (string_field ''url,omitempty'' (im_URL x) @
          string_field ''proxy_url,omitempty'' (im_ProxyURL x) @
          int_field ''height,omitempty'' (im_Height x) @
          int_field ''width,omitempty'' (im_Width x))
          (zero_EmbedImage) =
        decode_members EmbedImage_member
          (string_field ''proxy_url,omitempty'' (im_ProxyURL x) @
          int_field ''height,omitempty'' (im_Height x) @
          int_field ''width,omitempty'' (im_Width x))
          (zero_EmbedImage\<lparr>im_URL := im_URL x\<rparr>)"
    unfolding string_field_def
    by (rule field_absorb)
       (simp_all add: EmbedImage_member_def zero_EmbedImage_def tag_simps to_lower_simps codec_simps)
  also have "\<dots> =
        decode_members EmbedImage_member
          (int_field ''height,omitempty'' (im_Height x) @
          int_field ''width,omitempty'' (im_Width x))
          (zero_EmbedImage\<lparr>im_URL := im_URL x, im_ProxyURL := im_ProxyURL x\<rparr>)"
    unfolding string_field_def
    by (rule field_absorb)
       (simp_all add: EmbedImage_member_def zero_EmbedImage_def tag_simps to_lower_simps codec_simps)
  also have "\<dots> =
        decode_members EmbedImage_member
          (int_field ''width,omitempty'' (im_Width x))
          (zero_EmbedImage\<lparr>im_URL := im_URL x, im_ProxyURL := im_ProxyURL x, im_Height := im_Height x\<rparr>)"
    unfolding int_field_def
    by (rule field_absorb)
       (simp_all add: EmbedImage_member_def zero_EmbedImage_def tag_simps to_lower_simps codec_simps)
  also have "\<dots> =
        Inr (zero_EmbedImage\<lparr>im_URL := im_URL x, im_ProxyURL := im_ProxyURL x, im_Height := im_Height x, im_Width := im_Width x\<rparr>)"
    unfolding int_field_def
    by (rule field_absorb_last)
       (simp_all add: EmbedImage_member_def zero_EmbedImage_def tag_simps to_lower_simps codec_simps)
  finally show ?thesis
    by (simp add: decode_EmbedImage_def encode_EmbedImage_def decode_struct_def zero_EmbedImage_def)
qed

lemma dec_ptr_EmbedImage:
  "dec_ptr decode_EmbedImage zero_EmbedImage (enc_ptr encode_EmbedImage p) None = Inr p"
  by (rule dec_ptr_enc_ptr) (rule decode_encode_EmbedImage, simp add: encode_EmbedImage_def)

lemma dec_slice_EmbedImage:
  "dec_slice (\<lambda>e. dec_ptr decode_EmbedImage zero_EmbedImage e None) (JArray (map (enc_ptr encode_EmbedImage) ps)) = Inr ps"
  by (simp add: dec_slice_def traverse_map dec_ptr_EmbedImage)

lemma decode_encode_EmbedThumbnail: "decode_EmbedThumbnail (encode_EmbedThumbnail x) zero_EmbedThumbnail = Inr x"
proof -
  have "decode_members EmbedThumbnail_member
          (string_field ''url,omitempty'' (th_URL x) @
          string_field ''proxy_url,omitempty'' (th_ProxyURL x) @
          int_field ''height,omitempty'' (th_Height x) @
          int_field ''width,omitempty'' (th_Width x))
          (zero_EmbedThumbnail) =
        decode_members EmbedThumbnail_member
          (string_field ''proxy_url,omitempty'' (th_ProxyURL x) @
          int_field ''height,omitempty'' (th_Height x) @
          int_field ''width,omitempty'' (th_Width x))
          (zero_EmbedThumbnail\<lparr>th_URL := th_URL x\<rparr>)"
    unfolding string_field_def
    by (rule field_absorb)
       (simp_all add: EmbedThumbnail_member_def zero_EmbedThumbnail_def tag_simps to_lower_simps codec_simps)
  also have "\<dots> =
        decode_members EmbedThumbnail_member
          (int_field ''height,omitempty'' (th_Height x) @
          int_field ''width,omitempty'' (th_Width x))
          (zero_EmbedThumbnail\<lparr>th_URL := th_URL x, th_ProxyURL := th_ProxyURL x\<rparr>)"
    unfolding string_field_def
    by (rule field_absorb)
       (simp_all add: EmbedThumbnail_member_def zero_EmbedThumbnail_def tag_simps to_lower_simps codec_simps)
  also have "\<dots> =
        decode_members EmbedThumbnail_member
          (int_field ''width,omitempty'' (th_Width x))
          (zero_EmbedThumbnail\<lparr>th_URL := th_URL x, th_ProxyURL := th_ProxyURL x, th_Height := th_Height x\<rparr>)"
    unfolding int_field_def
    by (rule field_absorb)
       (simp_all add: EmbedThumbnail_member_def zero_EmbedThumbnail_def tag_simps to_lower_simps codec_simps)
  also have "\<dots> =
        Inr (zero_EmbedThumbnail\<lparr>th_URL := th_URL x, th_ProxyURL := th_ProxyURL x, th_Height := th_Height x, th_Width := th_Width x\<rparr>)"
    unfolding int_field_def
    by (rule field_absorb_last)
       (simp_all add: EmbedThumbnail_member_def zero_EmbedThumbnail_def tag_simps to_lower_simps codec_simps)
  finally show ?thesis
    by (simp add: decode_EmbedThumbnail_def encode_EmbedThumbnail_def decode_struct_def zero_EmbedThumbnail_def)
qed

lemma dec_ptr_EmbedThumbnail:
  "dec_ptr decode_EmbedThumbnail zero_EmbedThumbnail (enc_ptr encode_EmbedThumbnail p) None = Inr p"
  by (rule dec_ptr_enc_ptr) (rule decode_encode_EmbedThumbnail, simp add: encode_EmbedThumbnail_def)

lemma dec_slice_EmbedThumbnail:
  "dec_slice (\<lambda>e. dec_ptr decode_EmbedThumbnail zero_EmbedThumbnail e None) (JArray (map (enc_ptr encode_EmbedThumbnail) ps)) = Inr ps"
  by (simp add: dec_slice_def traverse_map dec_ptr_EmbedThumbnail)

lemma decode_encode_EmbedVideo: "decode_EmbedVideo (encode_EmbedVideo x) zero_EmbedVideo = Inr x"
proof -
  have "decode_members EmbedVideo_member
          (string_field ''url,omitempty'' (vd_URL x) @
          int_field ''height,omitempty'' (vd_Height x) @
          int_field ''width,omitempty'' (vd_Width x))
          (zero_EmbedVideo) =
        decode_members EmbedVideo_member
          (int_field ''height,omitempty'' (vd_Height x) @
          int_field ''width,omitempty'' (vd_Width x))
          (zero_EmbedVideo\<lparr>vd_URL := vd_URL x\<rparr>)"
    unfolding string_field_def
    by (rule field_absorb)
       (simp_all add: EmbedVideo_member_def zero_EmbedVideo_def tag_simps to_lower_simps codec_simps)
  also have "\<dots> =
        decode_members EmbedVideo_member
          (int_field ''width,omitempty'' (vd_Width x))
          (zero_EmbedVideo\<lparr>vd_URL := vd_URL x, vd_Height := vd_Height x\<rparr>)"
    unfolding int_field_def
    by (rule field_absorb)
       (simp_all add: EmbedVideo_member_def zero_EmbedVideo_def tag_simps to_lower_simps codec_simps)
  also have "\<dots> =
        Inr (zero_EmbedVideo\<lparr>vd_URL := vd_URL x, vd_Height := vd_Height x, vd_Width := vd_Width x\<rparr>)"
    unfolding int_field_def
    by (rule field_absorb_last)
       (simp_all add: EmbedVideo_member_def zero_EmbedVideo_def tag_simps to_lower_simps codec_simps)
  finally show ?thesis
    by (simp add: decode_EmbedVideo_def encode_EmbedVideo_def decode_struct_def zero_EmbedVideo_def)
qed

lemma dec_ptr_EmbedVideo:
  "dec_ptr decode_EmbedVideo zero_EmbedVideo (enc_ptr encode_EmbedVideo p) None = Inr p"
  by (rule dec_ptr_enc_ptr) (rule decode_encode_EmbedVideo, simp add: encode_EmbedVideo_def)

lemma dec_slice_EmbedVideo:
  "dec_slice (\<lambda>e. dec_ptr decode_EmbedVideo zero_EmbedVideo e None) (JArray (map (enc_ptr encode_EmbedVideo) ps)) = Inr ps"
  by (simp add: dec_slice_def traverse_map dec_ptr_EmbedVideo)

lemma decode_encode_EmbedProvider: "decode_EmbedProvider (encode_EmbedProvider x) zero_EmbedProvider = Inr x"
proof -
  have "decode_members EmbedProvider_member
          (string_field ''name,omitempty'' (pr_Name x) @
          string_field ''url,omitempty'' (pr_URL x))
          (zero_EmbedProvider) =
        decode_members EmbedProvider_member
          (string_field ''url,omitempty'' (pr_URL x))
          (zero_EmbedProvider\<lparr>pr_Name := pr_Name x\<rparr>)"
    unfolding string_field_def
    by (rule field_absorb)
       (simp_all add: EmbedProvider_member_def zero_EmbedProvider_def tag_simps to_lower_simps codec_simps)
  also have "\<dots> =
        Inr (zero_EmbedProvider\<lparr>pr_Name := pr_Name x, pr_URL := pr_URL x\<rparr>)"
    unfolding string_field_def
    by (rule field_absorb_last)
       (simp_all add: EmbedProvider_member_def zero_EmbedProvider_def tag_simps to_lower_simps codec_simps)
  finally show ?thesis
    by (simp add: decode_EmbedProvider_def encode_EmbedProvider_def decode_struct_def zero_EmbedProvider_def)
qed

lemma dec_ptr_EmbedProvider:
  "dec_ptr decode_EmbedProvider zero_EmbedProvider (enc_ptr encode_EmbedProvider p) None = Inr p"
  by (rule dec_ptr_enc_ptr) (rule decode_encode_EmbedProvider, simp add: encode_EmbedProvider_def)

lemma dec_slice_EmbedProvider:
  "dec_slice (\<lambda>e. dec_ptr decode_EmbedProvider zero_EmbedProvider e None) (JArray (map (enc_ptr encode_EmbedProvider) ps)) = Inr ps"
  by (simp add: dec_slice_def traverse_map dec_ptr_EmbedProvider)

lemma decode_encode_EmbedAuthor: "decode_EmbedAuthor (encode_EmbedAuthor x) zero_EmbedAuthor = Inr x"
proof -
  have "decode_members EmbedAuthor_member
          (string_field ''name,omitempty'' (au_Name x) @
          string_field ''url,omitempty'' (au_URL x) @
          string_field ''icon_url,omitempty'' (au_IconURL x) @
          string_field ''proxy_icon_url,omitempty'' (au_ProxyIconURL x))
          (zero_EmbedAuthor) =
        decode_members EmbedAuthor_member
          (string_field ''url,omitempty'' (au_URL x) @
          string_field ''icon_url,omitempty'' (au_IconURL x) @
          string_field ''proxy_icon_url,omitempty'' (au_ProxyIconURL x))
          (zero_EmbedAuthor\<lparr>au_Name := au_Name x\<rparr>)"
    unfolding string_field_def
    by (rule field_absorb)
       (simp_all add: EmbedAuthor_member_def zero_EmbedAuthor_def tag_simps to_lower_simps codec_simps)
  also have "\<dots> =
        decode_members EmbedAuthor_member
          (string_field ''icon_url,omitempty'' (au_IconURL x) @
          string_field ''proxy_icon_url,omitempty'' (au_ProxyIconURL x))
          (zero_EmbedAuthor\<lparr>au_Name := au_Name x, au_URL := au_URL x\<rparr>)"
    unfolding string_field_def
    by (rule field_absorb)
       (simp_all add: EmbedAuthor_member_def zero_EmbedAuthor_def tag_simps to_lower_simps codec_simps)
  also have "\<dots> =
        decode_members EmbedAuthor_member
          (string_field ''proxy_icon_url,omitempty'' (au_ProxyIconURL x))
          (zero_EmbedAuthor\<lparr>au_Name := au_Name x, au_URL := au_URL x, au_IconURL := au_IconURL x\<rparr>)"
    unfolding string_field_def
    by (rule field_absorb)
       (simp_all add: EmbedAuthor_member_def zero_EmbedAuthor_def tag_simps to_lower_simps codec_simps)
  also have "\<dots> =
        Inr (zero_EmbedAuthor\<lparr>au_Name := au_Name x, au_URL := au_URL x, au_IconURL := au_IconURL x, au_ProxyIconURL := au_ProxyIconURL x\<rparr>)"
    unfolding string_field_def
    by (rule field_absorb_last)
       (simp_all add: EmbedAuthor_member_def zero_EmbedAuthor_def tag_simps to_lower_simps codec_simps)
  finally show ?thesis
    by (simp add: decode_EmbedAuthor_def encode_EmbedAuthor_def decode_struct_def zero_EmbedAuthor_def)
qed

lemma dec_ptr_EmbedAuthor:
  "dec_ptr decode_EmbedAuthor zero_EmbedAuthor (enc_ptr encode_EmbedAuthor p) None = Inr p"
  by (rule dec_ptr_enc_ptr) (rule decode_encode_EmbedAuthor, simp add: encode_EmbedAuthor_def)

lemma dec_slice_EmbedAuthor:
  "dec_slice (\<lambda>e. dec_ptr decode_EmbedAuthor zero_EmbedAuthor e None) (JArray (map (enc_ptr encode_EmbedAuthor) ps)) = Inr ps"
  by (simp add: dec_slice_def traverse_map dec_ptr_EmbedAuthor)

lemma decode_encode_EmbedField: "decode_EmbedField (encode_EmbedField x) zero_EmbedField = Inr x"
proof -
  have "decode_members EmbedField_member
          (string_field ''name'' (fl_Name x) @
          string_field ''value'' (fl_Value x) @
          bool_field ''inline,omitempty'' (fl_Inline x))
          (zero_EmbedField) =
        decode_members EmbedField_member
          (string_field ''value'' (fl_Value x) @
          bool_field ''inline,omitempty'' (fl_Inline x))
          (zero_EmbedField\<lparr>fl_Name := fl_Name x\<rparr>)"
    unfolding string_field_def
    by (rule field_absorb)
       (simp_all add: EmbedField_member_def zero_EmbedField_def tag_simps to_lower_simps codec_simps)
  also have "\<dots> =
        decode_members EmbedField_member
          (bool_field ''inline,omitempty'' (fl_Inline x))
          (zero_EmbedField\<lparr>fl_Name := fl_Name x, fl_Value := fl_Value x\<rparr>)"
    unfolding string_field_def
    by (rule field_absorb)
       (simp_all add: EmbedField_member_def zero_EmbedField_def tag_simps to_lower_simps codec_simps)
  also have "\<dots> =
        Inr (zero_EmbedField\<lparr>fl_Name := fl_Name x, fl_Value := fl_Value x, fl_Inline := fl_Inline x\<rparr>)"
    unfolding bool_field_def
    by (rule field_absorb_last)
       (simp_all add: EmbedField_member_def zero_EmbedField_def tag_simps to_lower_simps codec_simps)
  finally show ?thesis
    by (simp add: decode_EmbedField_def encode_EmbedField_def decode_struct_def zero_EmbedField_def)
qed

lemma dec_ptr_EmbedField:
  "dec_ptr decode_EmbedField zero_EmbedField (enc_ptr encode_EmbedField p) None = Inr p"
  by (rule dec_ptr_enc_ptr) (rule decode_encode_EmbedField, simp add: encode_EmbedField_def)

lemma dec_slice_EmbedField:
  "dec_slice (\<lambda>e. dec_ptr decode_EmbedField zero_EmbedField e None) (JArray (map (enc_ptr encode_EmbedField) ps)) = Inr ps"
  by (simp add: dec_slice_def traverse_map dec_ptr_EmbedField)

lemma decode_encode_Embed:
  assumes "encode_Embed x = Inr j"
  shows "decode_Embed j zero_Embed = Inr x"
proof -
  from assms obtain ts where ts: "enc_ptr_err Time_MarshalJSON (em_Timestamp x) = Inr ts"
    and j: "j = JObject
          (string_field ''title,omitempty'' (em_Title x) @
          string_field ''type,omitempty'' (em_Type x) @
          string_field ''description,omitempty'' (em_Description x) @
          string_field ''url,omitempty'' (em_URL x) @
          field ''timestamp,omitempty'' (em_Timestamp x = None) ts @
          int_field ''color,omitempty'' (em_Color x) @
          ptr_field ''footer,omitempty'' encode_EmbedFooter (em_Footer x) @
          ptr_field ''image,omitempty'' encode_EmbedImage (em_Image x) @
          ptr_field ''thumbnail,omitempty'' encode_EmbedThumbnail (em_Thumbnail x) @
          ptr_field ''video,omitempty'' encode_EmbedVideo (em_Video x) @
          ptr_field ''provider,omitempty'' encode_EmbedProvider (em_Provider x) @
          ptr_field ''author,omitempty'' encode_EmbedAuthor (em_Author x) @
          slice_field ''fields,omitempty'' (enc_ptr encode_EmbedField) (em_Fields x))"
    by (auto simp add: encode_Embed_def split: sum.splits)
  have sub: "dec_ptr Time_UnmarshalJSON [] ts None = Inr (em_Timestamp x)"
    by (rule dec_time_enc_time [OF ts])
  have "decode_members Embed_member
          (string_field ''title,omitempty'' (em_Title x) @
          string_field ''type,omitempty'' (em_Type x) @
          string_field ''description,omitempty'' (em_Description x) @
          string_field ''url,omitempty'' (em_URL x) @
          field ''timestamp,omitempty'' (em_Timestamp x = None) ts @
          int_field ''color,omitempty'' (em_Color x) @
          ptr_field ''footer,omitempty'' encode_EmbedFooter (em_Footer x) @
          ptr_field ''image,omitempty'' encode_EmbedImage (em_Image x) @
          ptr_field ''thumbnail,omitempty'' encode_EmbedThumbnail (em_Thumbnail x) @
          ptr_field ''video,omitempty'' encode_EmbedVideo (em_Video x) @
          ptr_field ''provider,omitempty'' encode_EmbedProvider (em_Provider x) @
          ptr_field ''author,omitempty'' encode_EmbedAuthor (em_Author x) @
          slice_field ''fields,omitempty'' (enc_ptr encode_EmbedField) (em_Fields x))
          (zero_Embed) =
        decode_members Embed_member
          (string_field ''type,omitempty'' (em_Type x) @
          string_field ''description,omitempty'' (em_Description x) @
          string_field ''url,omitempty'' (em_URL x) @
          field ''timestamp,omitempty'' (em_Timestamp x = None) ts @
          int_field ''color,omitempty'' (em_Color x) @
          ptr_field ''footer,omitempty'' encode_EmbedFooter (em_Footer x) @
          ptr_field ''image,omitempty'' encode_EmbedImage (em_Image x) @
          ptr_field ''thumbnail,omitempty'' encode_EmbedThumbnail (em_Thumbnail x) @
          ptr_field ''video,omitempty'' encode_EmbedVideo (em_Video x) @
          ptr_field ''provider,omitempty'' encode_EmbedProvider (em_Provider x) @
          ptr_field ''author,omitempty'' encode_EmbedAuthor (em_Author x) @
          slice_field ''fields,omitempty'' (enc_ptr encode_EmbedField) (em_Fields x))
          (zero_Embed\<lparr>em_Title := em_Title x\<rparr>)"
    unfolding string_field_def
    by (rule field_absorb)
       (simp_all add: Embed_member_def zero_Embed_def tag_simps to_lower_simps codec_simps)
  also have "\<dots> =
        decode_members Embed_member
          (string_field ''description,omitempty'' (em_Description x) @
          string_field ''url,omitempty'' (em_URL x) @
          field ''timestamp,omitempty'' (em_Timestamp x = None) ts @
          int_field ''color,omitempty'' (em_Color x) @
          ptr_field ''footer,omitempty'' encode_EmbedFooter (em_Footer x) @
          ptr_field ''image,omitempty'' encode_EmbedImage (em_Image x) @
          ptr_field ''thumbnail,omitempty'' encode_EmbedThumbnail (em_Thumbnail x) @
          ptr_field ''video,omitempty'' encode_EmbedVideo (em_Video x) @
          ptr_field ''provider,omitempty'' encode_EmbedProvider (em_Provider x) @
          ptr_field ''author,omitempty'' encode_EmbedAuthor (em_Author x) @
          slice_field ''fields,omitempty'' (enc_ptr encode_EmbedField) (em_Fields x))
          (zero_Embed\<lparr>em_Title := em_Title x, em_Type := em_Type x\<rparr>)"
    unfolding string_field_def
    by (rule field_absorb)
       (simp_all add: Embed_member_def zero_Embed_def tag_simps to_lower_simps codec_simps)
  also have "\<dots> =
        decode_members Embed_member
          (string_field ''url,omitempty'' (em_URL x) @
          field ''timestamp,omitempty'' (em_Timestamp x = None) ts @
          int_field ''color,omitempty'' (em_Color x) @
          ptr_field ''footer,omitempty'' encode_EmbedFooter (em_Footer x) @
          ptr_field ''image,omitempty'' encode_EmbedImage (em_Image x) @
          ptr_field ''thumbnail,omitempty'' encode_EmbedThumbnail (em_Thumbnail x) @
          ptr_field ''video,omitempty'' encode_EmbedVideo (em_Video x) @
          ptr_field ''provider,omitempty'' encode_EmbedProvider (em_Provider x) @
          ptr_field ''author,omitempty'' encode_EmbedAuthor (em_Author x) @
          slice_field ''fields,omitempty'' (enc_ptr encode_EmbedField) (em_Fields x))
          (zero_Embed\<lparr>em_Title := em_Title x, em_Type := em_Type x, em_Description := em_Description x\<rparr>)"
    unfolding string_field_def
    by (rule field_absorb)
       (simp_all add: Embed_member_def zero_Embed_def tag_simps to_lower_simps codec_simps)
  also have "\<dots> =
        decode_members Embed_member
          (field ''timestamp,omitempty'' (em_Timestamp x = None) ts @
          int_field ''color,omitempty'' (em_Color x) @
          ptr_field ''footer,omitempty'' encode_EmbedFooter (em_Footer x) @
          ptr_field ''image,omitempty'' encode_EmbedImage (em_Image x) @
          ptr_field ''thumbnail,omitempty'' encode_EmbedThumbnail (em_Thumbnail x) @
          ptr_field ''video,omitempty'' encode_EmbedVideo (em_Video x) @
          ptr_field ''provider,omitempty'' encode_EmbedProvider (em_Provider x) @
          ptr_field ''author,omitempty'' encode_EmbedAuthor (em_Author x) @
          slice_field ''fields,omitempty'' (enc_ptr encode_EmbedField) (em_Fields x))
          (zero_Embed\<lparr>em_Title := em_Title x, em_Type := em_Type x, em_Description := em_Description x, em_URL := em_URL x\<rparr>)"
    unfolding string_field_def
    by (rule field_absorb)
       (simp_all add: Embed_member_def zero_Embed_def tag_simps to_lower_simps codec_simps)
  also have "\<dots> =
        decode_members Embed_member
          (int_field ''color,omitempty'' (em_Color x) @
          ptr_field ''footer,omitempty'' encode_EmbedFooter (em_Footer x) @
          ptr_field ''image,omitempty'' encode_EmbedImage (em_Image x) @
          ptr_field ''thumbnail,omitempty'' encode_EmbedThumbnail (em_Thumbnail x) @
          ptr_field ''video,omitempty'' encode_EmbedVideo (em_Video x) @
          ptr_field ''provider,omitempty'' encode_EmbedProvider (em_Provider x) @
          ptr_field ''author,omitempty'' encode_EmbedAuthor (em_Author x) @
          slice_field ''fields,omitempty'' (enc_ptr encode_EmbedField) (em_Fields x))
          (zero_Embed\<lparr>em_Title := em_Title x, em_Type := em_Type x, em_Description := em_Description x, em_URL := em_URL x, em_Timestamp := em_Timestamp x\<rparr>)"
    by (rule field_absorb)
       (simp_all add: Embed_member_def zero_Embed_def tag_simps to_lower_simps codec_simps sub)
  also have "\<dots> =
        decode_members Embed_member
          (ptr_field ''footer,omitempty'' encode_EmbedFooter (em_Footer x) @
          ptr_field ''image,omitempty'' encode_EmbedImage (em_Image x) @
          ptr_field ''thumbnail,omitempty'' encode_EmbedThumbnail (em_Thumbnail x) @
          ptr_field ''video,omitempty'' encode_EmbedVideo (em_Video x) @
          ptr_field ''provider,omitempty'' encode_EmbedProvider (em_Provider x) @
          ptr_field ''author,omitempty'' encode_EmbedAuthor (em_Author x) @
          slice_field ''fields,omitempty'' (enc_ptr encode_EmbedField) (em_Fields x))
          (zero_Embed\<lparr>em_Title := em_Title x, em_Type := em_Type x, em_Description := em_Description x, em_URL := em_URL x, em_Timestamp := em_Timestamp x, em_Color := em_Color x\<rparr>)"
    unfolding int_field_def
    by (rule field_absorb)
       (simp_all add: Embed_member_def zero_Embed_def tag_simps to_lower_simps codec_simps)
  also have "\<dots> =
        decode_members Embed_member
          (ptr_field ''image,omitempty'' encode_EmbedImage (em_Image x) @
          ptr_field ''thumbnail,omitempty'' encode_EmbedThumbnail (em_Thumbnail x) @
          ptr_field ''video,omitempty'' encode_EmbedVideo (em_Video x) @
          ptr_field ''provider,omitempty'' encode_EmbedProvider (em_Provider x) @
          ptr_field ''author,omitempty'' encode_EmbedAuthor (em_Author x) @
          slice_field ''fields,omitempty'' (enc_ptr encode_EmbedField) (em_Fields x))
          (zero_Embed\<lparr>em_Title := em_Title x, em_Type := em_Type x, em_Description := em_Description x, em_URL := em_URL x, em_Timestamp := em_Timestamp x, em_Color := em_Color x, em_Footer := em_Footer x\<rparr>)"
    unfolding ptr_field_def
    by (rule field_absorb)
       (simp_all add: Embed_member_def zero_Embed_def tag_simps to_lower_simps codec_simps dec_ptr_EmbedFooter)
  also have "\<dots> =
        decode_members Embed_member
          (ptr_field ''thumbnail,omitempty'' encode_EmbedThumbnail (em_Thumbnail x) @
          ptr_field ''video,omitempty'' encode_EmbedVideo (em_Video x) @
          ptr_field ''provider,omitempty'' encode_EmbedProvider (em_Provider x) @
          ptr_field ''author,omitempty'' encode_EmbedAuthor (em_Author x) @
          slice_field ''fields,omitempty'' (enc_ptr encode_EmbedField) (em_Fields x))
          (zero_Embed\<lparr>em_Title := em_Title x, em_Type := em_Type x, em_Description := em_Description x, em_URL := em_URL x, em_Timestamp := em_Timestamp x, em_Color := em_Color x, em_Footer := em_Footer x, em_Image := em_Image x\<rparr>)"
    unfolding ptr_field_def
    by (rule field_absorb)
       (simp_all add: Embed_member_def zero_Embed_def tag_simps to_lower_simps codec_simps dec_ptr_EmbedImage)
  also have "\<dots> =
        decode_members Embed_member
          (ptr_field ''video,omitempty'' encode_EmbedVideo (em_Video x) @
          ptr_field ''provider,omitempty'' encode_EmbedProvider (em_Provider x) @
          ptr_field ''author,omitempty'' encode_EmbedAuthor (em_Author x) @
          slice_field ''fields,omitempty'' (enc_ptr encode_EmbedField) (em_Fields x))
          (zero_Embed\<lparr>em_Title := em_Title x, em_Type := em_Type x, em_Description := em_Description x, em_URL := em_URL x, em_Timestamp := em_Timestamp x, em_Color := em_Color x, em_Footer := em_Footer x, em_Image := em_Image x, em_Thumbnail := em_Thumbnail x\<rparr>)"
    unfolding ptr_field_def
    by (rule field_absorb)
       (simp_all add: Embed_member_def zero_Embed_def tag_simps to_lower_simps codec_simps dec_ptr_EmbedThumbnail)
  also have "\<dots> =
        decode_members Embed_member
          (ptr_field ''provider,omitempty'' encode_EmbedProvider (em_Provider x) @
          ptr_field ''author,omitempty'' encode_EmbedAuthor (em_Author x) @
          slice_field ''fields,omitempty'' (enc_ptr encode_EmbedField) (em_Fields x))
          (zero_Embed\<lparr>em_Title := em_Title x, em_Type := em_Type x, em_Description := em_Description x, em_URL := em_URL x, em_Timestamp := em_Timestamp x, em_Color := em_Color x, em_Footer := em_Footer x, em_Image := em_Image x, em_Thumbnail := em_Thumbnail x, em_Video := em_Video x\<rparr>)"
    unfolding ptr_field_def
    by (rule field_absorb)
       (simp_all add: Embed_member_def zero_Embed_def tag_simps to_lower_simps codec_simps dec_ptr_EmbedVideo)
  also have "\<dots> =
        decode_members Embed_member
          (ptr_field ''author,omitempty'' encode_EmbedAuthor (em_Author x) @
          slice_field ''fields,omitempty'' (enc_ptr encode_EmbedField) (em_Fields x))
          (zero_Embed\<lparr>em_Title := em_Title x, em_Type := em_Type x, em_Description := em_Description x, em_URL := em_URL x, em_Timestamp := em_Timestamp x, em_Color := em_Color x, em_Footer := em_Footer x, em_Image := em_Image x, em_Thumbnail := em_Thumbnail x, em_Video := em_Video x, em_Provider := em_Provider x\<rparr>)"
    unfolding ptr_field_def
    by (rule field_absorb)
       (simp_all add: Embed_member_def zero_Embed_def tag_simps to_lower_simps codec_simps dec_ptr_EmbedProvider)
  also have "\<dots> =
        decode_members Embed_member
          (slice_field ''fields,omitempty'' (enc_ptr encode_EmbedField) (em_Fields x))
          (zero_Embed\<lparr>em_Title := em_Title x, em_Type := em_Type x, em_Description := em_Description x, em_URL := em_URL x, em_Timestamp := em_Timestamp x, em_Color := em_Color x, em_Footer := em_Footer x, em_Image := em_Image x, em_Thumbnail := em_Thumbnail x, em_Video := em_Video x, em_Provider := em_Provider x, em_Author := em_Author x\<rparr>)"
    unfolding ptr_field_def
    by (rule field_absorb)
       (simp_all add: Embed_member_def zero_Embed_def tag_simps to_lower_simps codec_simps dec_ptr_EmbedAuthor)
  also have "\<dots> =
        Inr (zero_Embed\<lparr>em_Title := em_Title x, em_Type := em_Type x, em_Description := em_Description x, em_URL := em_URL x, em_Timestamp := em_Timestamp x, em_Color := em_Color x, em_Footer := em_Footer x, em_Image := em_Image x, em_Thumbnail := em_Thumbnail x, em_Video := em_Video x, em_Provider := em_Provider x, em_Author := em_Author x, em_Fields := em_Fields x\<rparr>)"
    unfolding slice_field_def
    by (rule field_absorb_last)
       (simp_all add: Embed_member_def zero_Embed_def tag_simps to_lower_simps codec_simps dec_slice_EmbedField)
  finally show ?thesis
    by (simp add: decode_Embed_def j decode_struct_def zero_Embed_def)
qed

lemma encode_Embed_not_null: "encode_Embed x = Inr j \<Longrightarrow> j \<noteq> JNull"
  by (auto simp add: encode_Embed_def split: sum.splits)

lemma dec_ptr_Embed:
  "enc_ptr_err encode_Embed p = Inr j \<Longrightarrow> dec_ptr decode_Embed zero_Embed j None = Inr p"
  by (rule dec_ptr_enc_ptr_err [where enc = encode_Embed])
     (auto dest: decode_encode_Embed encode_Embed_not_null)

lemma decode_encode_AllowedMentions: "decode_AllowedMentions (encode_AllowedMentions x) zero_AllowedMentions = Inr x"
proof -
  have "decode_members AllowedMentions_member
          (slice_field ''parse,omitempty'' JString (am_Parse x) @
          slice_field ''roles,omitempty'' Snowflake_MarshalJSON (am_Roles x) @
          slice_field ''users,omitempty'' Snowflake_MarshalJSON (am_Users x))
          (zero_AllowedMentions) =
        decode_members AllowedMentions_member
          (slice_field ''roles,omitempty'' Snowflake_MarshalJSON (am_Roles x) @
          slice_field ''users,omitempty'' Snowflake_MarshalJSON (am_Users x))
          (zero_AllowedMentions\<lparr>am_Parse := am_Parse x\<rparr>)"
    unfolding slice_field_def
    by (rule field_absorb)
       (simp_all add: AllowedMentions_member_def zero_AllowedMentions_def tag_simps to_lower_simps codec_simps)
  also have "\<dots> =
        decode_members AllowedMentions_member
          (slice_field ''users,omitempty'' Snowflake_MarshalJSON (am_Users x))
          (zero_AllowedMentions\<lparr>am_Parse := am_Parse x, am_Roles := am_Roles x\<rparr>)"
    unfolding slice_field_def
    by (rule field_absorb)
       (simp_all add: AllowedMentions_member_def zero_AllowedMentions_def tag_simps to_lower_simps codec_simps)
  also have "\<dots> =
        Inr (zero_AllowedMentions\<lparr>am_Parse := am_Parse x, am_Roles := am_Roles x, am_Users := am_Users x\<rparr>)"
    unfolding slice_field_def
    by (rule field_absorb_last)
       (simp_all add: AllowedMentions_member_def zero_AllowedMentions_def tag_simps to_lower_simps codec_simps)
  finally show ?thesis
    by (simp add: decode_AllowedMentions_def encode_AllowedMentions_def decode_struct_def zero_AllowedMentions_def)
qed

lemma dec_ptr_AllowedMentions:
  "dec_ptr decode_AllowedMentions zero_AllowedMentions (enc_ptr encode_AllowedMentions p) None = Inr p"
  by (rule dec_ptr_enc_ptr) (rule decode_encode_AllowedMentions, simp add: encode_AllowedMentions_def)

lemma dec_slice_AllowedMentions:
  "dec_slice (\<lambda>e. dec_ptr decode_AllowedMentions zero_AllowedMentions e None) (JArray (map (enc_ptr encode_AllowedMentions) ps)) = Inr ps"
  by (simp add: dec_slice_def traverse_map dec_ptr_AllowedMentions)

lemma decode_encode_WebhookExecuteParams:
  assumes "encode_WebhookExecuteParams x = Inr j"
  shows "decode_WebhookExecuteParams j zero_WebhookExecuteParams = Inr x"
proof -
  from assms obtain es where es: "traverse (enc_ptr_err encode_Embed) (wep_Embeds x) = Inr es"
    and j: "j = JObject
          (string_field ''content,omitempty'' (wep_Content x) @
          string_field ''username,omitempty'' (wep_Username x) @
          string_field ''avatar_url,omitempty'' (wep_AvatarURL x) @
          bool_field ''tts,omitempty'' (wep_TTS x) @
          field ''embeds,omitempty'' (wep_Embeds x = []) (JArray es) @
          ptr_field ''allowed_mentions,omitempty'' encode_AllowedMentions (wep_AllowedMentions x))"
    by (auto simp add: encode_WebhookExecuteParams_def split: sum.splits)
  have sub: "dec_slice (\<lambda>e. dec_ptr decode_Embed zero_Embed e None) (JArray es) = Inr (wep_Embeds x)"
    by (simp add: dec_slice_def traverse_roundtrip [OF es dec_ptr_Embed])
  have "decode_members WebhookExecuteParams_member
          (string_field ''content,omitempty'' (wep_Content x) @
          string_field ''username,omitempty'' (wep_Username x) @
          string_field ''avatar_url,omitempty'' (wep_AvatarURL x) @
          bool_field ''tts,omitempty'' (wep_TTS x) @
          field ''embeds,omitempty'' (wep_Embeds x = []) (JArray es) @
          ptr_field ''allowed_mentions,omitempty'' encode_AllowedMentions (wep_AllowedMentions x))
          (zero_WebhookExecuteParams) =
        decode_members WebhookExecuteParams_member
          (string_field ''username,omitempty'' (wep_Username x) @
          string_field ''avatar_url,omitempty'' (wep_AvatarURL x) @
          bool_field ''tts,omitempty'' (wep_TTS x) @
          field ''embeds,omitempty'' (wep_Embeds x = []) (JArray es) @
          ptr_field ''allowed_mentions,omitempty'' encode_AllowedMentions (wep_AllowedMentions x))
          (zero_WebhookExecuteParams\<lparr>wep_Content := wep_Content x\<rparr>)"
    unfolding string_field_def
    by (rule field_absorb)
       (simp_all add: WebhookExecuteParams_member_def zero_WebhookExecuteParams_def tag_simps to_lower_simps codec_simps)
  also have "\<dots> =
        decode_members WebhookExecuteParams_member
          (string_field ''avatar_url,omitempty'' (wep_AvatarURL x) @
          bool_field ''tts,omitempty'' (wep_TTS x) @
          field ''embeds,omitempty'' (wep_Embeds x = []) (JArray es) @
          ptr_field ''allowed_mentions,omitempty'' encode_AllowedMentions (wep_AllowedMentions x))
          (zero_WebhookExecuteParams\<lparr>wep_Content := wep_Content x, wep_Username := wep_Username x\<rparr>)"
    unfolding string_field_def
    by (rule field_absorb)
       (simp_all add: WebhookExecuteParams_member_def zero_WebhookExecuteParams_def tag_simps to_lower_simps codec_simps)
  also have "\<dots> =
        decode_members WebhookExecuteParams_member
          (bool_field ''tts,omitempty'' (wep_TTS x) @
          field ''embeds,omitempty'' (wep_Embeds x = []) (JArray es) @
          ptr_field ''allowed_mentions,omitempty'' encode_AllowedMentions (wep_AllowedMentions x))
          (zero_WebhookExecuteParams\<lparr>wep_Content := wep_Content x, wep_Username := wep_Username x, wep_AvatarURL := wep_AvatarURL x\<rparr>)"
    unfolding string_field_def
    by (rule field_absorb)
       (simp_all add: WebhookExecuteParams_member_def zero_WebhookExecuteParams_def tag_simps to_lower_simps codec_simps)
  also have "\<dots> =
        decode_members WebhookExecuteParams_member
          (field ''embeds,omitempty'' (wep_Embeds x = []) (JArray es) @
          ptr_field ''allowed_mentions,omitempty'' encode_AllowedMentions (wep_AllowedMentions x))
          (zero_WebhookExecuteParams\<lparr>wep_Content := wep_Content x, wep_Username := wep_Username x, wep_AvatarURL := wep_AvatarURL x, wep_TTS := wep_TTS x\<rparr>)"
    unfolding bool_field_def
    by (rule field_absorb)
       (simp_all add: WebhookExecuteParams_member_def zero_WebhookExecuteParams_def tag_simps to_lower_simps codec_simps)
  also have "\<dots> =
        decode_members WebhookExecuteParams_member
          (ptr_field ''allowed_mentions,omitempty'' encode_AllowedMentions (wep_AllowedMentions x))
          (zero_WebhookExecuteParams\<lparr>wep_Content := wep_Content x, wep_Username := wep_Username x, wep_AvatarURL := wep_AvatarURL x, wep_TTS := wep_TTS x, wep_Embeds := wep_Embeds x\<rparr>)"
    by (rule field_absorb)
       (simp_all add: WebhookExecuteParams_member_def zero_WebhookExecuteParams_def tag_simps to_lower_simps codec_simps sub)
  also have "\<dots> =
        Inr (zero_WebhookExecuteParams\<lparr>wep_Content := wep_Content x, wep_Username := wep_Username x, wep_AvatarURL := wep_AvatarURL x, wep_TTS := wep_TTS x, wep_Embeds := wep_Embeds x, wep_AllowedMentions := wep_AllowedMentions x\<rparr>)"
    unfolding ptr_field_def
    by (rule field_absorb_last)
       (simp_all add: WebhookExecuteParams_member_def zero_WebhookExecuteParams_def tag_simps to_lower_simps codec_simps dec_ptr_AllowedMentions)
  finally show ?thesis
    by (simp add: decode_WebhookExecuteParams_def j decode_struct_def zero_WebhookExecuteParams_def)
qed

text \<open>When the encoder fails, and with what.\<close>

lemma encode_Embed_result:
  "(case encode_Embed e of
      Inl err \<Rightarrow> \<not> timestamp_ok (Some e) \<and> err = errorString ''Time.MarshalJSON: year outside of range [0,9999]''
    | Inr j \<Rightarrow> timestamp_ok (Some e))"
  by (cases "em_Timestamp e")
     (simp_all add: encode_Embed_def enc_ptr_err_def timestamp_ok_def Time_MarshalJSON_def)

lemma encode_Embeds_result:
  "(case traverse (enc_ptr_err encode_Embed) ps of
      Inl err \<Rightarrow> \<not> list_all timestamp_ok ps \<and> err = errorString ''Time.MarshalJSON: year outside of range [0,9999]''
    | Inr js \<Rightarrow> list_all timestamp_ok ps)"
proof (induction ps)
  case Nil
  then show ?case by simp
next
  case (Cons p ps)
  show ?case
  proof (cases p)
    case None
    with Cons show ?thesis
      by (auto simp add: enc_ptr_err_def timestamp_ok_def split: sum.splits)
  next
    case (Some e)
    with Cons encode_Embed_result [of e] show ?thesis
      by (auto simp add: enc_ptr_err_def split: sum.splits)
  qed
qed

lemma Encode_result:
  "(case Encode_WebhookExecuteParams wep of
      Inl err \<Rightarrow> \<not> timestamps_ok wep \<and> err = errorString ''Time.MarshalJSON: year outside of range [0,9999]''
    | Inr j \<Rightarrow> timestamps_ok wep)"
proof (cases wep)
  case None
  then show ?thesis
    by (simp add: Encode_WebhookExecuteParams_def enc_ptr_err_def timestamps_ok_def)
next
  case (Some x)
  with encode_Embeds_result [of "wep_Embeds x"] show ?thesis
    by (auto simp add: Encode_WebhookExecuteParams_def enc_ptr_err_def timestamps_ok_def
        encode_WebhookExecuteParams_def split: sum.splits)
qed

lemma Encode_zero:
  "Encode_WebhookExecuteParams (Some zero_WebhookExecuteParams) = Inr (JObject [])"
  by (simp add: Encode_WebhookExecuteParams_def enc_ptr_err_def encode_WebhookExecuteParams_def
      zero_WebhookExecuteParams_def string_field_def bool_field_def ptr_field_def field_def
      tag_simps)

text \<open>
  Claim C7. For every \<open>WebhookExecuteParams\<close> whose content is unset (the empty string),
  the encoded JSON object has no member \<^verbatim>\<open>content\<close>, and decoding that object into a fresh
  record gives the parameters back, the content unset as before. The encoder writes
  such an object for all parameters but those with a time it cannot marshal, for which
  it writes none and returns the error of \<^verbatim>\<open>Time.MarshalJSON\<close>.
\<close>

theorem content_unset_roundtrip:
  assumes "wep_Content wep = []"
  shows "(case encode_WebhookExecuteParams wep of
            Inl err \<Rightarrow>
              \<not> timestamps_ok (Some wep) \<and>
              err = errorString ''Time.MarshalJSON: year outside of range [0,9999]''
          | Inr j \<Rightarrow>
              timestamps_ok (Some wep) \<and>
              ''content'' \<notin> set (json_keys j) \<and>
              decode_WebhookExecuteParams j zero_WebhookExecuteParams = Inr wep)"
proof (cases "encode_WebhookExecuteParams wep")
  case (Inl err)
  with Encode_result [of "Some wep"] show ?thesis
    by (simp add: Encode_WebhookExecuteParams_def enc_ptr_err_def)
next
  case (Inr j)
  with Encode_result [of "Some wep"] have ok: "timestamps_ok (Some wep)"
    by (simp add: Encode_WebhookExecuteParams_def enc_ptr_err_def)
  from Inr obtain es where "j = JObject
          (string_field ''content,omitempty'' (wep_Content wep) @
           string_field ''username,omitempty'' (wep_Username wep) @
           string_field ''avatar_url,omitempty'' (wep_AvatarURL wep) @
           bool_field ''tts,omitempty'' (wep_TTS wep) @
           field ''embeds,omitempty'' (wep_Embeds wep = []) (JArray es) @
           ptr_field ''allowed_mentions,omitempty'' encode_AllowedMentions (wep_AllowedMentions wep))"
    by (auto simp add: encode_WebhookExecuteParams_def split: sum.splits)
  with assms have "''content'' \<notin> set (json_keys j)"
    by (simp add: json_keys_def string_field_def bool_field_def ptr_field_def field_def tag_simps)
  with ok Inr decode_encode_WebhookExecuteParams [OF Inr] show ?thesis
    by simp
qed

theorem content_unset_roundtrip_witness:
  "wep_Content
     \<lparr>wep_Content = [], wep_Username = ''bot'', wep_AvatarURL = [], wep_TTS = True,
      wep_Embeds =
        [Some (zero_Embed\<lparr>em_Title := ''Hi there'', em_Timestamp := Some ''2020-09-01T12:00:00Z''\<rparr>)],
      wep_AllowedMentions = None\<rparr> = [] \<and>
   encode_WebhookExecuteParams
     \<lparr>wep_Content = [], wep_Username = ''bot'', wep_AvatarURL = [], wep_TTS = True,
      wep_Embeds =
        [Some (zero_Embed\<lparr>em_Title := ''Hi there'', em_Timestamp := Some ''2020-09-01T12:00:00Z''\<rparr>)],
      wep_AllowedMentions = None\<rparr> =
     Inr (JObject [(''username'', JString ''bot''), (''tts'', JBool True),
       (''embeds'', JArray [JObject [(''title'', JString ''Hi there''),
          (''timestamp'', JString ''2020-09-01T12:00:00Z'')]])]) \<and>
   decode_WebhookExecuteParams
     (JObject [(''username'', JString ''bot''), (''tts'', JBool True),
       (''embeds'', JArray [JObject [(''title'', JString ''Hi there''),
          (''timestamp'', JString ''2020-09-01T12:00:00Z'')]])])
     zero_WebhookExecuteParams =
     Inr \<lparr>wep_Content = [], wep_Username = ''bot'', wep_AvatarURL = [], wep_TTS = True,
      wep_Embeds =
        [Some (zero_Embed\<lparr>em_Title := ''Hi there'', em_Timestamp := Some ''2020-09-01T12:00:00Z''\<rparr>)],
      wep_AllowedMentions = None\<rparr>"
proof -
  let ?wep = "\<lparr>wep_Content = [], wep_Username = ''bot'', wep_AvatarURL = [], wep_TTS = True,
      wep_Embeds =
        [Some (zero_Embed\<lparr>em_Title := ''Hi there'', em_Timestamp := Some ''2020-09-01T12:00:00Z''\<rparr>)],
      wep_AllowedMentions = None\<rparr>"
  have y: "year_in_range ''2020-09-01T12:00:00Z''"
    by (simp add: year_in_range_def is_digit_def)
  have enc: "encode_WebhookExecuteParams ?wep =
     Inr (JObject [(''username'', JString ''bot''), (''tts'', JBool True),
       (''embeds'', JArray [JObject [(''title'', JString ''Hi there''),
          (''timestamp'', JString ''2020-09-01T12:00:00Z'')]])])"
    by (simp add: encode_WebhookExecuteParams_def encode_Embed_def zero_Embed_def enc_ptr_err_def
        Time_MarshalJSON_def y enc_ptr_def string_field_def bool_field_def int_field_def
        slice_field_def ptr_field_def field_def tag_simps)
  have c: "wep_Content ?wep = []" by simp
  from content_unset_roundtrip [OF c] show ?thesis
    unfolding enc by simp
qed

section \<open>The client is not written to\<close>

text \<open>
  Claim C9. The endpoint client is immutable after construction: each of \<open>Execute\<close>,
  \<open>Get\<close>, \<open>Modify\<close> and \<open>Delete\<close> leaves the client as it found it, so its URL, its
  transport and its wait flag are the same after the call as before, whatever the
  transport answers and on every return path. (The transport is a function of the
  request: by the contract of \<^verbatim>\<open>http.RoundTripper\<close> it does not write to the request it is
  given, whose \<^verbatim>\<open>URL\<close> pointer the client shares.)
\<close>

theorem operations_leave_client_unchanged:
  "snd (Execute boundary wa ctx wep file filename) = wa \<and>
   snd (Get wa ctx) = wa \<and>
   snd (Modify wa ctx wmp) = wa \<and>
   snd (Delete wa ctx) = wa"
  by (simp add: Execute_def Execute_response_def Get_def Get_response_def Modify_def
      Modify_response_def Delete_def Delete_response_def split: sum.splits)

section \<open>Empty bodies under an accepted status\<close>

text \<open>
  Claim C10. For a client constructed with \<open>wait = true\<close>, when \<open>Execute\<close> receives a
  response with an accepted status (200, 201 or 204) and an empty body, it still decodes
  the body as a \<open>Message\<close> and so returns the decoder's error, \<^verbatim>\<open>io.EOF\<close>, not success.
\<close>

theorem Execute_wait_empty_body:
  assumes "wa_Wait wa"
    and "Execute_request boundary wa ctx wep file filename = Inr req"
    and "wa_Client wa req = Inr res"
    and "StatusCode res = 200 \<or> StatusCode res = 201 \<or> StatusCode res = 204"
    and "rd_bytes (Body res) = []"
  shows "fst (Execute boundary wa ctx wep file filename) = Inl EOF"
  using assms by (auto simp add: Execute_def Execute_response_def Decode_empty)

theorem Execute_wait_empty_body_witness:
  "fst (Execute ''b''
         \<lparr>wa_URL = zero_URL,
          wa_Client = reply \<lparr>StatusCode = 204, Body = \<lparr>rd_bytes = [], rd_err = None\<rparr>\<rparr>,
          wa_Wait = True\<rparr>
         None (Some zero_WebhookExecuteParams) None []) = Inl EOF"
  by (rule Execute_wait_empty_body
        [where res = "\<lparr>StatusCode = 204, Body = \<lparr>rd_bytes = [], rd_err = None\<rparr>\<rparr>"])
     (simp_all add: Execute_request_def Encode_zero Let_def reply_def)

text \<open>
  Claim C1 says that \<open>Modify\<close> returns successfully on a 304 response with an empty body.
  The source accepts the status 304 and then decodes the body without looking at its
  length, so the call ends in \<^verbatim>\<open>io.EOF\<close>: evaluated here on a transport that answers 304
  with no body.
\<close>

theorem Modify_not_modified_empty_body:
  "fst (Modify
         \<lparr>wa_URL = zero_URL,
          wa_Client = reply \<lparr>StatusCode = 304, Body = \<lparr>rd_bytes = [], rd_err = None\<rparr>\<rparr>,
          wa_Wait = False\<rparr>
         None (Some \<lparr>wmp_Name = ''new name'', wmp_Avatar = [], wmp_ChannelID = 0\<rparr>)) = Inl EOF"
  by (simp add: Modify_def Modify_response_def reply_def Decode_empty)

section \<open>Cancellation\<close>

text \<open>
  Claim C3 says that every operation aborts with a cancellation error when its context
  is triggered. \<open>Execute\<close>, \<open>Get\<close> and \<open>Modify\<close> attach the context to the request;
  \<open>Delete\<close> does not. Evaluated on a transport that honours the context of its request
  and a context that is already cancelled: \<open>Delete\<close> goes through and reports success,
  where \<open>Get\<close> on the same client fails with \<open>Canceled\<close>.
\<close>

theorem Delete_ignores_cancelled_context:
  "fst (Delete
         \<lparr>wa_URL = zero_URL,
          wa_Client =
            honour_context (reply \<lparr>StatusCode = 204, Body = \<lparr>rd_bytes = [], rd_err = None\<rparr>\<rparr>),
          wa_Wait = False\<rparr>
         (Some \<lparr>ctx_Err = Some Canceled\<rparr>)) = None \<and>
   fst (Get
         \<lparr>wa_URL = zero_URL,
          wa_Client =
            honour_context (reply \<lparr>StatusCode = 204, Body = \<lparr>rd_bytes = [], rd_err = None\<rparr>\<rparr>),
          wa_Wait = False\<rparr>
         (Some \<lparr>ctx_Err = Some Canceled\<rparr>)) = Inl Canceled"
  by (simp add: Delete_def Delete_request_def Delete_response_def Get_def Get_request_def
       honour_context_def reply_def WithContext_def)

section \<open>The body of Modify\<close>

text \<open>
  Claim C2 says that the body \<open>Modify\<close> sends holds only the fields the caller set. The
  three tags of \<^verbatim>\<open>WebhookModifyParams\<close> spell the option \<^verbatim>\<open>omitemprty\<close>, which the encoder
  does not know, so no field is ever left out: with only the name set, the body still
  has the members \<^verbatim>\<open>avatar\<close> and \<^verbatim>\<open>channel_id\<close>.
\<close>

theorem Modify_body_keeps_unset_fields:
  "req_Body (Modify_request wa ctx
      (Some \<lparr>wmp_Name = ''new name'', wmp_Avatar = [], wmp_ChannelID = 0\<rparr>)) =
     Some (JsonBody (JObject
       [(''name'', JString ''new name''), (''avatar'', JString []),
        (''channel_id'', Snowflake_MarshalJSON 0)]))"
  by (cases ctx)
     (simp_all add: Modify_request_def WithContext_def enc_ptr_def encode_WebhookModifyParams_def
       string_field_def snowflake_field_def field_def tag_name_def tag_omitempty_def tag_parts_def)

section \<open>The multipart body of Execute\<close>

text \<open>
  Claim C8. The request that \<open>Execute\<close> hands to the transport is a POST whose body is a
  multipart form: its first part is the JSON encoding of the parameters under the field
  name \<^verbatim>\<open>payload_json\<close>, with or without a file; a second part, the form file \<^verbatim>\<open>file\<close> with
  the given file name and the bytes of the stream, follows exactly when a stream is
  supplied. A request is built, and sent, exactly when the parameters encode (no embed
  carries a time outside the years 0 to 9999) and the stream, if one is supplied, reads
  to its end; a call whose parameters do not encode returns the encoder's error before
  it touches the stream.
\<close>

theorem Execute_request_body:
  "(Execute_request boundary wa ctx wep file filename = Inr req \<longrightarrow>
      (\<exists>payload.
          Encode_WebhookExecuteParams wep = Inr payload \<and>
          req_Body req =
            Some (Multipart boundary
              (CreateFormField ''payload_json'' (JsonText payload) #
               (case file of
                  None \<Rightarrow> []
                | Some f \<Rightarrow> [CreateFormFile ''file'' filename (Bytes (rd_bytes f))])))) \<and>
      req_Method req = ''POST'' \<and>
      req_Header req = [(''Content-Type'', [''multipart/form-data; boundary='' @ boundary])] \<and>
      Execute boundary wa ctx wep file filename =
        (case wa_Client wa req of
           Inl err \<Rightarrow> (Inl err, wa)
         | Inr res \<Rightarrow> Execute_response wa res)) \<and>
   ((\<exists>r. Execute_request boundary wa ctx wep file filename = Inr r) \<longleftrightarrow>
      timestamps_ok wep \<and> (case file of None \<Rightarrow> True | Some f \<Rightarrow> rd_err f = None)) \<and>
   (\<not> timestamps_ok wep \<longrightarrow>
      Execute_request boundary wa ctx wep file filename =
        Inl (errorString ''Time.MarshalJSON: year outside of range [0,9999]'') \<and>
      fst (Execute boundary wa ctx wep file filename) =
        Inl (errorString ''Time.MarshalJSON: year outside of range [0,9999]''))"
  using Encode_result [of wep]
  by (cases ctx; cases "file")
     (auto simp add: Execute_request_def Let_def Execute_def Copy_def WithContext_def
        FormDataContentType_def split: option.splits sum.splits)

text \<open>
  Two calls: one with a content and a file, whose request carries both parts; one with
  an embed dated in the year 10000, which sends nothing.
\<close>

theorem Execute_request_body_witness:
  "(\<exists>req. Execute_request ''XYZ''
      \<lparr>wa_URL = zero_URL,
       wa_Client = reply \<lparr>StatusCode = 204, Body = \<lparr>rd_bytes = [], rd_err = None\<rparr>\<rparr>,
       wa_Wait = False\<rparr>
      None (Some (zero_WebhookExecuteParams\<lparr>wep_Content := ''hello''\<rparr>))
      (Some \<lparr>rd_bytes = ''PNG'', rd_err = None\<rparr>) ''cat.png'' = Inr req \<and>
    req_Body req =
      Some (Multipart ''XYZ''
        [\<lparr>part_name = ''payload_json'', part_filename = None, part_type = None,
          part_content = JsonText (JObject [(''content'', JString ''hello'')])\<rparr>,
         \<lparr>part_name = ''file'', part_filename = Some ''cat.png'',
          part_type = Some ''application/octet-stream'', part_content = Bytes ''PNG''\<rparr>])) \<and>
   fst (Execute ''XYZ''
      \<lparr>wa_URL = zero_URL,
       wa_Client = reply \<lparr>StatusCode = 204, Body = \<lparr>rd_bytes = [], rd_err = None\<rparr>\<rparr>,
       wa_Wait = False\<rparr>
      None
      (Some (zero_WebhookExecuteParams
         \<lparr>wep_Embeds := [Some (zero_Embed\<lparr>em_Timestamp := Some ''10000-01-01T00:00:00Z''\<rparr>)]\<rparr>))
      None []) =
     Inl (errorString ''Time.MarshalJSON: year outside of range [0,9999]'')"
proof -
  let ?wa = "\<lparr>wa_URL = zero_URL,
       wa_Client = reply \<lparr>StatusCode = 204, Body = \<lparr>rd_bytes = [], rd_err = None\<rparr>\<rparr>,
       wa_Wait = False\<rparr>"
  let ?wep = "zero_WebhookExecuteParams\<lparr>wep_Content := ''hello''\<rparr>"
  let ?bad = "zero_WebhookExecuteParams
         \<lparr>wep_Embeds := [Some (zero_Embed\<lparr>em_Timestamp := Some ''10000-01-01T00:00:00Z''\<rparr>)]\<rparr>"
  let ?f = "\<lparr>rd_bytes = ''PNG'', rd_err = None\<rparr>"
  have enc: "Encode_WebhookExecuteParams (Some ?wep) = Inr (JObject [(''content'', JString ''hello'')])"
    by (simp add: Encode_WebhookExecuteParams_def enc_ptr_err_def encode_WebhookExecuteParams_def
        zero_WebhookExecuteParams_def string_field_def bool_field_def ptr_field_def field_def
        tag_simps)
  have ok: "timestamps_ok (Some ?wep)"
    by (simp add: timestamps_ok_def zero_WebhookExecuteParams_def)
  have bad: "\<not> timestamps_ok (Some ?bad)"
    by (simp add: timestamps_ok_def timestamp_ok_def zero_Embed_def year_in_range_def is_digit_def)
  note t = Execute_request_body [of "''XYZ''" ?wa None "Some ?wep" "Some ?f" "''cat.png''"]
  from t [THEN conjunct2, THEN conjunct1] ok
  obtain req where r: "Execute_request ''XYZ'' ?wa None (Some ?wep) (Some ?f) ''cat.png'' = Inr req"
    by auto
  from t [of req, THEN conjunct1, rule_format, OF r, THEN conjunct1]
  have "req_Body req =
      Some (Multipart ''XYZ''
        [\<lparr>part_name = ''payload_json'', part_filename = None, part_type = None,
          part_content = JsonText (JObject [(''content'', JString ''hello'')])\<rparr>,
         \<lparr>part_name = ''file'', part_filename = Some ''cat.png'',
          part_type = Some ''application/octet-stream'', part_content = Bytes ''PNG''\<rparr>])"
    by (auto simp add: CreateFormField_def CreateFormFile_def enc)
  with r have first: "\<exists>req. Execute_request ''XYZ'' ?wa None (Some ?wep) (Some ?f) ''cat.png'' = Inr req \<and>
    req_Body req =
      Some (Multipart ''XYZ''
        [\<lparr>part_name = ''payload_json'', part_filename = None, part_type = None,
          part_content = JsonText (JObject [(''content'', JString ''hello'')])\<rparr>,
         \<lparr>part_name = ''file'', part_filename = Some ''cat.png'',
          part_type = Some ''application/octet-stream'', part_content = Bytes ''PNG''\<rparr>])"
    by blast
  from Execute_request_body [of "''XYZ''" ?wa None "Some ?bad" None "[]", THEN conjunct2,
      THEN conjunct2, rule_format, OF bad, THEN conjunct2]
  have "fst (Execute ''XYZ'' ?wa None (Some ?bad) None []) =
     Inl (errorString ''Time.MarshalJSON: year outside of range [0,9999]'')" .
  with first show ?thesis by (rule conjI)
qed

section \<open>The wait flag\<close>

text \<open>
  Claim C5. For every \<open>Execute\<close> call that reaches an accepted status (200, 201, 204): a
  client constructed with \<open>wait = false\<close> returns no message and no error whatever the
  body holds, so the body is never decoded; a client constructed with \<open>wait = true\<close>
  returns exactly what decoding the body as a \<open>Message\<close> gives, and when the body is a
  JSON object whose one \<^verbatim>\<open>id\<close> member is the decimal string of \<open>n\<close>, the returned message
  has the ID \<open>n\<close>.
\<close>

theorem Execute_wait_flag:
  assumes "Execute_request boundary wa ctx wep file filename = Inr req"
    and "wa_Client wa req = Inr res"
    and "StatusCode res = 200 \<or> StatusCode res = 201 \<or> StatusCode res = 204"
  shows "(\<not> wa_Wait wa \<longrightarrow> fst (Execute boundary wa ctx wep file filename) = Inr None) \<and>
         (wa_Wait wa \<longrightarrow>
            fst (Execute boundary wa ctx wep file filename) =
              map_sum id Some (Decode decode_Message (Body res) zero_Message)) \<and>
         (wa_Wait wa \<longrightarrow> parse_json (rd_bytes (Body res)) = Some (JObject kvs) \<longrightarrow>
            map snd (filter (\<lambda>kv. map to_lower (fst kv) = ''id'') kvs) = [JString (FormatUint n)] \<longrightarrow>
            fst (Execute boundary wa ctx wep file filename) = Inr (Some \<lparr>msg_ID = n\<rparr>))"
proof -
  have ex: "Execute boundary wa ctx wep file filename = Execute_response wa res"
    using assms(1,2) by (simp add: Execute_def)
  have a: "\<not> wa_Wait wa \<longrightarrow> fst (Execute boundary wa ctx wep file filename) = Inr None"
    using assms(3) by (auto simp add: ex Execute_response_def)
  have b: "wa_Wait wa \<longrightarrow>
            fst (Execute boundary wa ctx wep file filename) =
              map_sum id Some (Decode decode_Message (Body res) zero_Message)"
    using assms(3) by (auto simp add: ex Execute_response_def split: sum.splits)
  have c: "wa_Wait wa \<longrightarrow> parse_json (rd_bytes (Body res)) = Some (JObject kvs) \<longrightarrow>
            map snd (filter (\<lambda>kv. map to_lower (fst kv) = ''id'') kvs) = [JString (FormatUint n)] \<longrightarrow>
            fst (Execute boundary wa ctx wep file filename) = Inr (Some \<lparr>msg_ID = n\<rparr>)"
  proof (intro impI)
    assume w: "wa_Wait wa" and p: "parse_json (rd_bytes (Body res)) = Some (JObject kvs)"
      and i: "map snd (filter (\<lambda>kv. map to_lower (fst kv) = ''id'') kvs) = [JString (FormatUint n)]"
    from p have ne: "rd_bytes (Body res) \<noteq> []" using parse_json_Nil by auto
    have "Snowflake_UnmarshalJSON (JString (FormatUint n)) = Inr n"
      using snowflake_roundtrip [of n] by (simp add: Snowflake_MarshalJSON_def)
    from Message_members_one_id [OF i this]
    have "decode_members Message_member kvs zero_Message = Inr \<lparr>msg_ID = n\<rparr>"
      by (simp add: zero_Message_def)
    with p ne have "Decode decode_Message (Body res) zero_Message = Inr \<lparr>msg_ID = n\<rparr>"
      by (simp add: Decode_def decode_Message_def decode_struct_def)
    with b w show "fst (Execute boundary wa ctx wep file filename) = Inr (Some \<lparr>msg_ID = n\<rparr>)"
      by simp
  qed
  from a b c show ?thesis by blast
qed

text \<open>
  The reader of string literals on an escaped character: the literal \<^verbatim>\<open>caf\u00e9\<close> is
  read as five bytes, the last two the UTF-8 form of the escaped letter.
\<close>

lemma read_string_unicode:
  "read_string (''caf'' @ [CHR 0x5C] @ ''u00e9'' @ [CHR 0x22] @ r) [] =
     Some ([CHR ''c'', CHR ''a'', CHR ''f'', CHR 0xC3, CHR 0xA9], r)"
  by (simp add: read_escape_def read_u4_def is_hex_def unhex_def is_digit_def is_surrogate_def
      utf8_encode_def char_of_def bit_0 bit_Suc)

text \<open>A high and a low surrogate, each escaped, are one character of four bytes.\<close>

lemma read_string_surrogate_pair:
  "read_string ([CHR 0x5C] @ ''ud83d'' @ [CHR 0x5C] @ ''ude00'' @ [CHR 0x22] @ r) [] =
     Some ([CHR 0xF0, CHR 0x9F, CHR 0x98, CHR 0x80], r)"
  by (simp add: read_escape_def read_u4_def is_hex_def unhex_def is_digit_def is_surrogate_def
      utf8_encode_def char_of_def bit_0 bit_Suc)

text \<open>The two-character escapes.\<close>

lemma read_string_simple_escapes:
  "read_string ([CHR 0x5C] @ ''n'' @ [CHR 0x5C] @ ''/'' @ [CHR 0x5C, CHR 0x5C] @ [CHR 0x5C, CHR 0x22] @
       [CHR 0x22] @ r) [] =
     Some ([CHR 0x0A, CHR ''/'', CHR 0x5C, CHR 0x22], r)"
  by (simp add: read_escape_def simple_escape_def)

text \<open>Numbers with a fraction, an exponent or a sign are read; the text of a fractional one is kept.\<close>

lemma number_forms_parse:
  \<open>parse_json ''[1e3, -0.5E+10, 0, -12, 1E-2, 2.25]'' =
     Some (JArray [JFloat ''1e3'', JFloat ''-0.5E+10'', JNumber 0, JNumber (- 12), JFloat ''1E-2'',
       JFloat ''2.25''])\<close>
  by code_simp

text \<open>A message body of the kind the platform sends.\<close>

lemma message_body_parse:
  \<open>parse_json ''{"id": "1234567890", "nonce": 1.5, "pinned": false, "content": "hi"}'' =
     Some (JObject [(''id'', JString ''1234567890''), (''nonce'', JFloat ''1.5''), (''pinned'', JBool False),
        (''content'', JString ''hi'')])\<close>
  by code_simp

lemma FormatUint_1234567890: "FormatUint 1234567890 = ''1234567890''"
  by (simp add: FormatUint_def digits_of.simps digit_char_simps)

theorem Execute_wait_flag_witness:
  \<open>fst (Execute ''b''
         \<lparr>wa_URL = zero_URL,
          wa_Client = reply \<lparr>StatusCode = 200,
             Body = \<lparr>rd_bytes = ''{"id": "1234567890", "nonce": 1.5, "pinned": false, "content": "hi"}'', rd_err = None\<rparr>\<rparr>,
          wa_Wait = True\<rparr>
         None (Some zero_WebhookExecuteParams) None []) = Inr (Some \<lparr>msg_ID = 1234567890\<rparr>) \<and>
   fst (Execute ''b''
         \<lparr>wa_URL = zero_URL,
          wa_Client = reply \<lparr>StatusCode = 200,
             Body = \<lparr>rd_bytes = ''{"id": "1234567890", "nonce": 1.5, "pinned": false, "content": "hi"}'', rd_err = None\<rparr>\<rparr>,
          wa_Wait = False\<rparr>
         None (Some zero_WebhookExecuteParams) None []) = Inr None\<close>
proof -
  let ?res = "\<lparr>StatusCode = 200,
    Body = \<lparr>rd_bytes = ''{\"id\": \"1234567890\", \"nonce\": 1.5, \"pinned\": false, \"content\": \"hi\"}'', rd_err = None\<rparr>\<rparr>"
  let ?wa = "\<lambda>w. \<lparr>wa_URL = zero_URL, wa_Client = reply ?res, wa_Wait = w\<rparr>"
  let ?kvs = "[(''id'', JString ''1234567890''), (''nonce'', JFloat ''1.5''), (''pinned'', JBool False),
        (''content'', JString ''hi'')]"
  have req: "\<exists>req. Execute_request ''b'' (?wa w) None (Some zero_WebhookExecuteParams) None [] = Inr req"
    for w by (simp add: Execute_request_def Encode_zero Let_def)
  then obtain r1 r2
    where r1: "Execute_request ''b'' (?wa True) None (Some zero_WebhookExecuteParams) None [] = Inr r1"
      and r2: "Execute_request ''b'' (?wa False) None (Some zero_WebhookExecuteParams) None [] = Inr r2"
    by blast
  have c1: "wa_Client (?wa True) r1 = Inr ?res" and c2: "wa_Client (?wa False) r2 = Inr ?res"
    by (simp_all add: reply_def)
  have st: "StatusCode ?res = 200 \<or> StatusCode ?res = 201 \<or> StatusCode ?res = 204"
    by simp
  have ids: "map snd (filter (\<lambda>kv. map to_lower (fst kv) = ''id'') ?kvs) = [JString (FormatUint 1234567890)]"
    by (simp add: to_lower_simps FormatUint_1234567890)
  have p: "parse_json (rd_bytes (Body ?res)) = Some (JObject ?kvs)"
    by (simp add: message_body_parse)
  have w: "wa_Wait (?wa True)" and nw: "\<not> wa_Wait (?wa False)"
    by simp_all
  note t1 = Execute_wait_flag [OF r1 c1 st, of ?kvs 1234567890]
  note t2 = Execute_wait_flag [OF r2 c2 st, of ?kvs 1234567890]
  have "fst (Execute ''b'' (?wa True) None (Some zero_WebhookExecuteParams) None []) =
          Inr (Some \<lparr>msg_ID = 1234567890\<rparr>)"
    by (rule t1 [THEN conjunct2, THEN conjunct2, rule_format, OF w p ids])
  moreover
  have "fst (Execute ''b'' (?wa False) None (Some zero_WebhookExecuteParams) None []) = Inr None"
    by (rule t2 [THEN conjunct1, rule_format, OF nw])
  ultimately show ?thesis by simp
qed

section \<open>The accepted status codes\<close>

text \<open>
  Claim C4 says that each operation succeeds exactly on its accepted status set and that
  on any other status the body is read and returned as the error. Two things stand
  against the word exactly. An accepted status is not yet success where the body is
  decoded: \<open>Get\<close> on a 200 response whose body is not JSON fails with the decoder's
  error. And an unaccepted status does not always yield the body: when reading it
  fails, the reader's error is returned in its place.
\<close>

lemma not_json: "parse_json ''not json'' = None"
  by code_simp

theorem accepted_status_without_success:
  "fst (Get
         \<lparr>wa_URL = zero_URL,
          wa_Client = reply \<lparr>StatusCode = 200, Body = \<lparr>rd_bytes = ''not json'', rd_err = None\<rparr>\<rparr>,
          wa_Wait = True\<rparr>
         None) = Inl (JsonError ''invalid document'') \<and>
   fst (Delete
         \<lparr>wa_URL = zero_URL,
          wa_Client = reply \<lparr>StatusCode = 500,
             Body = \<lparr>rd_bytes = ''Internal'', rd_err = Some (IOError ''connection reset'')\<rparr>\<rparr>,
          wa_Wait = True\<rparr>
         None) = Some (IOError ''connection reset'')"
  by (simp add: Get_def Get_response_def Delete_def Delete_response_def reply_def Decode_def
      ReadAll_def not_json)

text \<open>
  Claim C4, as the code has it. Once the transport has answered, an operation succeeds
  exactly when the status is in its own set (\<open>Execute\<close> 200, 201, 204; \<open>Get\<close> 200;
  \<open>Modify\<close> 200, 304; \<open>Delete\<close> 200, 204) and, where the operation decodes the body
  (\<open>Get\<close>, \<open>Modify\<close>, and \<open>Execute\<close> on a client with the wait flag), the body decodes;
  what it then returns is the decoded record, and nothing for \<open>Delete\<close> and for
  \<open>Execute\<close> without the wait flag. On any status outside the set it fails, with
  \<^verbatim>\<open>errors.New\<close> of the body text verbatim when the body can be read and with the reader's
  error when it cannot.
\<close>

theorem accepted_status_sets:
  "(Execute_request boundary wa ctx wep file filename = Inr req \<longrightarrow> wa_Client wa req = Inr resE \<longrightarrow>
      (fst (Execute boundary wa ctx wep file filename) = Inr m \<longleftrightarrow>
         StatusCode resE \<in> {200, 201, 204} \<and>
         (if wa_Wait wa
          then \<exists>msg. m = Some msg \<and> Decode decode_Message (Body resE) zero_Message = Inr msg
          else m = None)) \<and>
      (StatusCode resE \<notin> {200, 201, 204} \<longrightarrow>
         fst (Execute boundary wa ctx wep file filename) =
           Inl (case ReadAll (Body resE) of Inl err \<Rightarrow> err | Inr b \<Rightarrow> errorString b))) \<and>
   (wa_Client wa (Get_request wa ctx) = Inr resG \<longrightarrow>
      (fst (Get wa ctx) = Inr wh \<longleftrightarrow>
         StatusCode resG \<in> {200} \<and> Decode decode_Webhook (Body resG) zero_Webhook = Inr wh) \<and>
      (StatusCode resG \<notin> {200} \<longrightarrow>
         fst (Get wa ctx) =
           Inl (case ReadAll (Body resG) of Inl err \<Rightarrow> err | Inr b \<Rightarrow> errorString b))) \<and>
   (wa_Client wa (Modify_request wa ctx wmp) = Inr resM \<longrightarrow>
      (fst (Modify wa ctx wmp) = Inr wh' \<longleftrightarrow>
         StatusCode resM \<in> {200, 304} \<and> Decode decode_Webhook (Body resM) zero_Webhook = Inr wh') \<and>
      (StatusCode resM \<notin> {200, 304} \<longrightarrow>
         fst (Modify wa ctx wmp) =
           Inl (case ReadAll (Body resM) of Inl err \<Rightarrow> err | Inr b \<Rightarrow> errorString b))) \<and>
   (wa_Client wa (Delete_request wa ctx) = Inr resD \<longrightarrow>
      (fst (Delete wa ctx) = None \<longleftrightarrow> StatusCode resD \<in> {200, 204}) \<and>
      (StatusCode resD \<notin> {200, 204} \<longrightarrow>
         fst (Delete wa ctx) =
           Some (case ReadAll (Body resD) of Inl err \<Rightarrow> err | Inr b \<Rightarrow> errorString b)))"
proof (intro conjI impI)
  assume "Execute_request boundary wa ctx wep file filename = Inr req" "wa_Client wa req = Inr resE"
  then have ex: "Execute boundary wa ctx wep file filename = Execute_response wa resE"
    by (simp add: Execute_def)
  {
    show "fst (Execute boundary wa ctx wep file filename) = Inr m \<longleftrightarrow>
         StatusCode resE \<in> {200, 201, 204} \<and>
         (if wa_Wait wa
          then \<exists>msg. m = Some msg \<and> Decode decode_Message (Body resE) zero_Message = Inr msg
          else m = None)"
      by (auto simp add: ex Execute_response_def split: if_splits sum.splits)
  next
    assume "StatusCode resE \<notin> {200, 201, 204}"
    then show "fst (Execute boundary wa ctx wep file filename) =
        Inl (case ReadAll (Body resE) of Inl err \<Rightarrow> err | Inr b \<Rightarrow> errorString b)"
      by (auto simp add: ex Execute_response_def split: sum.splits)
  }
next
  assume g: "wa_Client wa (Get_request wa ctx) = Inr resG"
  {
    show "fst (Get wa ctx) = Inr wh \<longleftrightarrow>
         StatusCode resG \<in> {200} \<and> Decode decode_Webhook (Body resG) zero_Webhook = Inr wh"
      using g by (auto simp add: Get_def Get_response_def split: if_splits sum.splits)
  next
    assume "StatusCode resG \<notin> {200}"
    then show "fst (Get wa ctx) =
        Inl (case ReadAll (Body resG) of Inl err \<Rightarrow> err | Inr b \<Rightarrow> errorString b)"
      using g by (auto simp add: Get_def Get_response_def split: sum.splits)
  }
next
  assume m: "wa_Client wa (Modify_request wa ctx wmp) = Inr resM"
  {
    show "fst (Modify wa ctx wmp) = Inr wh' \<longleftrightarrow>
         StatusCode resM \<in> {200, 304} \<and> Decode decode_Webhook (Body resM) zero_Webhook = Inr wh'"
      using m by (auto simp add: Modify_def Modify_response_def split: if_splits sum.splits)
  next
    assume "StatusCode resM \<notin> {200, 304}"
    then show "fst (Modify wa ctx wmp) =
        Inl (case ReadAll (Body resM) of Inl err \<Rightarrow> err | Inr b \<Rightarrow> errorString b)"
      using m by (auto simp add: Modify_def Modify_response_def split: sum.splits)
  }
next
  assume d: "wa_Client wa (Delete_request wa ctx) = Inr resD"
  {
    show "fst (Delete wa ctx) = None \<longleftrightarrow> StatusCode resD \<in> {200, 204}"
      using d by (auto simp add: Delete_def Delete_response_def split: sum.splits)
  next
    assume "StatusCode resD \<notin> {200, 204}"
    then show "fst (Delete wa ctx) =
        Some (case ReadAll (Body resD) of Inl err \<Rightarrow> err | Inr b \<Rightarrow> errorString b)"
      using d by (auto simp add: Delete_def Delete_response_def split: sum.splits)
  }
qed

text \<open>
  The example of the spec: a 429 response with the body \<^verbatim>\<open>{"message":"rate limited"}\<close> fails
  every operation with exactly that text. And two successes: \<open>Get\<close> on a 200 response
  returns the metadata its body spells, \<open>Delete\<close> on a 204 response returns no error.
\<close>

lemma webhook_body_parse:
  \<open>parse_json ''{"id": "42", "type": 1, "channel_id": "7", "name": "hook", "avatar": null}'' =
     Some (JObject [(''id'', JString ''42''), (''type'', JNumber 1), (''channel_id'', JString ''7''),
       (''name'', JString ''hook''), (''avatar'', JNull)])\<close>
  by code_simp

lemma webhook_body_decode:
  \<open>Decode decode_Webhook
     \<lparr>rd_bytes = ''{"id": "42", "type": 1, "channel_id": "7", "name": "hook", "avatar": null}'',
      rd_err = None\<rparr> zero_Webhook =
     Inr \<lparr>wh_ID = 42, wh_Type = 1, wh_GuildID = 0, wh_ChannelID = 7, wh_User = None,
          wh_Name = ''hook'', wh_Avatar = [], wh_Token = []\<rparr>\<close>
  by (simp add: Decode_def webhook_body_parse decode_Webhook_def decode_struct_def
      Webhook_member_def zero_Webhook_def tag_name_def tag_parts_def to_lower_simps
      Snowflake_UnmarshalJSON_def is_digit_def read_nat_def digit_val_def dec_int_def
      dec_string_def)

theorem accepted_status_sets_witness:
  \<open>fst (Execute ''b''
         \<lparr>wa_URL = zero_URL,
          wa_Client = reply \<lparr>StatusCode = 429,
             Body = \<lparr>rd_bytes = ''{"message":"rate limited"}'', rd_err = None\<rparr>\<rparr>,
          wa_Wait = True\<rparr>
         None (Some zero_WebhookExecuteParams) None []) =
     Inl (errorString ''{"message":"rate limited"}'') \<and>
   fst (Get
         \<lparr>wa_URL = zero_URL,
          wa_Client = reply \<lparr>StatusCode = 429,
             Body = \<lparr>rd_bytes = ''{"message":"rate limited"}'', rd_err = None\<rparr>\<rparr>,
          wa_Wait = True\<rparr>
         None) =
     Inl (errorString ''{"message":"rate limited"}'') \<and>
   fst (Modify
         \<lparr>wa_URL = zero_URL,
          wa_Client = reply \<lparr>StatusCode = 429,
             Body = \<lparr>rd_bytes = ''{"message":"rate limited"}'', rd_err = None\<rparr>\<rparr>,
          wa_Wait = True\<rparr>
         None None) =
     Inl (errorString ''{"message":"rate limited"}'') \<and>
   fst (Delete
         \<lparr>wa_URL = zero_URL,
          wa_Client = reply \<lparr>StatusCode = 429,
             Body = \<lparr>rd_bytes = ''{"message":"rate limited"}'', rd_err = None\<rparr>\<rparr>,
          wa_Wait = True\<rparr>
         None) =
     Some (errorString ''{"message":"rate limited"}'') \<and>
   fst (Get
         \<lparr>wa_URL = zero_URL,
          wa_Client = reply \<lparr>StatusCode = 200,
             Body = \<lparr>rd_bytes =
                ''{"id": "42", "type": 1, "channel_id": "7", "name": "hook", "avatar": null}'',
               rd_err = None\<rparr>\<rparr>,
          wa_Wait = True\<rparr>
         None) =
     Inr \<lparr>wh_ID = 42, wh_Type = 1, wh_GuildID = 0, wh_ChannelID = 7, wh_User = None,
          wh_Name = ''hook'', wh_Avatar = [], wh_Token = []\<rparr> \<and>
   fst (Delete
         \<lparr>wa_URL = zero_URL,
          wa_Client = reply \<lparr>StatusCode = 204, Body = \<lparr>rd_bytes = [], rd_err = None\<rparr>\<rparr>,
          wa_Wait = True\<rparr>
         None) = None\<close>
proof -
  let ?res = "\<lparr>StatusCode = 429,
    Body = \<lparr>rd_bytes = ''{\"message\":\"rate limited\"}'', rd_err = None\<rparr>\<rparr>"
  let ?wa = "\<lparr>wa_URL = zero_URL, wa_Client = reply ?res, wa_Wait = True\<rparr>"
  let ?ok = "\<lparr>StatusCode = 200,
    Body = \<lparr>rd_bytes =
       ''{\"id\": \"42\", \"type\": 1, \"channel_id\": \"7\", \"name\": \"hook\", \"avatar\": null}'',
      rd_err = None\<rparr>\<rparr>"
  let ?wok = "\<lparr>wa_URL = zero_URL, wa_Client = reply ?ok, wa_Wait = True\<rparr>"
  let ?wh = "\<lparr>wh_ID = 42, wh_Type = 1, wh_GuildID = 0, wh_ChannelID = 7, wh_User = None,
          wh_Name = ''hook'', wh_Avatar = [], wh_Token = []\<rparr>"
  let ?nc = "\<lparr>StatusCode = 204, Body = \<lparr>rd_bytes = [], rd_err = None\<rparr>\<rparr>"
  let ?wnc = "\<lparr>wa_URL = zero_URL, wa_Client = reply ?nc, wa_Wait = True\<rparr>"
  obtain req where r: "Execute_request ''b'' ?wa None (Some zero_WebhookExecuteParams) None [] = Inr req"
    by (simp add: Execute_request_def Encode_zero Let_def)
  have c: "wa_Client ?wa q = Inr ?res" for q
    by (simp add: reply_def)
  have cok: "wa_Client ?wok q = Inr ?ok" for q
    by (simp add: reply_def)
  have cnc: "wa_Client ?wnc q = Inr ?nc" for q
    by (simp add: reply_def)
  have body: "(case ReadAll (Body ?res) of Inl err \<Rightarrow> err | Inr b \<Rightarrow> errorString b) =
      errorString ''{\"message\":\"rate limited\"}''"
    by (simp add: ReadAll_def)
  note t = accepted_status_sets [of "''b''" ?wa None "Some zero_WebhookExecuteParams" None "[]" req
      ?res _ ?res _ None ?res _ ?res]
  have "fst (Execute ''b'' ?wa None (Some zero_WebhookExecuteParams) None []) =
      Inl (case ReadAll (Body ?res) of Inl err \<Rightarrow> err | Inr b \<Rightarrow> errorString b)"
    by (rule t [THEN conjunct1, rule_format, OF r c, THEN conjunct2, rule_format]) simp
  moreover have "fst (Get ?wa None) =
      Inl (case ReadAll (Body ?res) of Inl err \<Rightarrow> err | Inr b \<Rightarrow> errorString b)"
    by (rule t [THEN conjunct2, THEN conjunct1, rule_format, OF c, THEN conjunct2, rule_format]) simp
  moreover have "fst (Modify ?wa None None) =
      Inl (case ReadAll (Body ?res) of Inl err \<Rightarrow> err | Inr b \<Rightarrow> errorString b)"
    by (rule t [THEN conjunct2, THEN conjunct2, THEN conjunct1, rule_format, OF c, THEN conjunct2,
          rule_format]) simp
  moreover have "fst (Delete ?wa None) =
      Some (case ReadAll (Body ?res) of Inl err \<Rightarrow> err | Inr b \<Rightarrow> errorString b)"
    by (rule t [THEN conjunct2, THEN conjunct2, THEN conjunct2, rule_format, OF c, THEN conjunct2,
          rule_format]) simp
  moreover have "fst (Get ?wok None) = Inr ?wh"
    using accepted_status_sets [where wa = ?wok and ctx = None and resG = ?ok and wh = ?wh,
        THEN conjunct2, THEN conjunct1, rule_format, OF cok, THEN conjunct1]
      webhook_body_decode
    by simp
  moreover have "fst (Delete ?wnc None) = None"
    using accepted_status_sets [where wa = ?wnc and ctx = None and resD = ?nc,
        THEN conjunct2, THEN conjunct2, THEN conjunct2, rule_format, OF cnc, THEN conjunct1]
    by simp
  ultimately show ?thesis
    unfolding body by simp
qed

section \<open>Construction\<close>

lemma url_split_absent: "c \<notin> set s \<Longrightarrow> url_split s c cutc = (s, [])"
  by (induction s) (auto simp add: url_split_def)

lemma takeWhile_stop: "c \<notin> set xs \<Longrightarrow> takeWhile (\<lambda>x. x \<noteq> c) (xs @ c # ys) = xs"
  by (induction xs) auto

lemma dropWhile_stop: "c \<notin> set xs \<Longrightarrow> dropWhile (\<lambda>x. x \<noteq> c) (xs @ c # ys) = c # ys"
  by (induction xs) auto

lemma unescape_plain: "CHR ''%'' \<notin> set s \<Longrightarrow> unescape s = Inr s"
  by (induction s) auto

lemma unreserved_plain:
  assumes "unreserved c"
  shows "c \<noteq> CHR ''#''" "c \<noteq> CHR ''?''" "c \<noteq> CHR ''%''" "c \<noteq> CHR ''/''"
    "\<not> ((of_char c :: nat) < 32 \<or> (of_char c :: nat) = 127)"
  using assms by (auto simp add: unreserved_def is_alpha_def is_digit_def)

lemma unreserved_string:
  assumes "list_all unreserved s"
  shows "CHR ''#'' \<notin> set s" "CHR ''?'' \<notin> set s" "CHR ''%'' \<notin> set s"
    "\<not> list_ex (\<lambda>c. (of_char c :: nat) < 32 \<or> (of_char c :: nat) = 127) s"
  using assms by (induction s) (auto dest: unreserved_plain)

lemma FormatUint_unreserved: "list_all unreserved (FormatUint i)"
proof -
  have "is_digit c \<Longrightarrow> unreserved c" for c by (simp add: unreserved_def)
  with digits_of_digits [of "unat i"] show ?thesis
    by (auto simp add: FormatUint_def list_all_iff)
qed

lemma digit_char_decimal: "d < 10 \<Longrightarrow> digit_char d \<in> set ''0123456789''"
proof -
  assume "d < 10"
  then have "d = 0 \<or> d = 1 \<or> d = 2 \<or> d = 3 \<or> d = 4 \<or> d = 5 \<or> d = 6 \<or> d = 7 \<or> d = 8 \<or> d = 9"
    by arith
  then show ?thesis
    by (elim disjE) (simp_all add: digit_char_simps)
qed

lemma digits_of_decimal: "list_all (\<lambda>c. c \<in> set ''0123456789'') (digits_of n)"
proof (induction n rule: digits_of.induct)
  case (1 n)
  show ?case
  proof (cases "n < 10")
    case True
    then show ?thesis
      by (subst digits_of.simps) (simp add: digit_char_decimal del: set_simps)
  next
    case False
    then have "list_all (\<lambda>c. c \<in> set ''0123456789'') (digits_of (n div 10))"
      by (rule "1.IH")
    moreover have "digit_char (n mod 10) \<in> set ''0123456789''"
      by (rule digit_char_decimal) simp
    ultimately show ?thesis
      using False by (subst digits_of.simps) (simp del: set_simps)
  qed
qed

lemma digit_char_not_zero: "0 < d \<Longrightarrow> d < 10 \<Longrightarrow> digit_char d \<noteq> CHR ''0''"
proof -
  assume "0 < d" "d < 10"
  then have "d = 1 \<or> d = 2 \<or> d = 3 \<or> d = 4 \<or> d = 5 \<or> d = 6 \<or> d = 7 \<or> d = 8 \<or> d = 9"
    by arith
  then show ?thesis
    by (elim disjE) (simp_all add: digit_char_simps)
qed

lemma digits_of_no_leading_zero: "0 < n \<Longrightarrow> hd (digits_of n) \<noteq> CHR ''0''"
proof (induction n rule: digits_of.induct)
  case (1 n)
  show ?case
  proof (cases "n < 10")
    case True
    with "1.prems" show ?thesis
      by (subst digits_of.simps) (simp add: digit_char_not_zero)
  next
    case False
    then have "0 < n div 10"
      by simp
    with False have "hd (digits_of (n div 10)) \<noteq> CHR ''0''"
      by (rule "1.IH")
    with False show ?thesis
      by (subst digits_of.simps) (simp add: digits_of_not_Nil)
  qed
qed

text \<open>
  Claim C6. For every identifier, every token made of URL-safe characters (letters,
  digits, \<^verbatim>\<open>-\<close>, \<^verbatim>\<open>_\<close>, \<^verbatim>\<open>.\<close>, \<^verbatim>\<open>~\<close>) and either value of the wait flag, construction
  succeeds; the stored URL has the path \<^verbatim>\<open>/api/webhooks/\<close>, the identifier in decimal,
  \<^verbatim>\<open>/\<close> and the token verbatim, on the host \<^verbatim>\<open>discord.com\<close> over \<^verbatim>\<open>https\<close>, and its query is
  \<^verbatim>\<open>wait=true\<close> when the flag is set and \<^verbatim>\<open>wait=false\<close> when it is not. The identifier in
  decimal is the one string of the characters \<^verbatim>\<open>0\<close> to \<^verbatim>\<open>9\<close> that has the identifier as its
  value in base ten and no leading zero (the identifier 0 is \<^verbatim>\<open>0\<close>). The client keeps the
  flag and the transport it was given, or the default one.
\<close>

theorem NewWebhookAPI_url:
  assumes "list_all unreserved webhookToken"
  shows "NewWebhookAPI DefaultClient webhookID webhookToken wait client =
     Inr \<lparr>wa_URL =
            \<lparr>Scheme = ''https'', Opaque = [], Host = ''discord.com'',
             Path = ''/api/webhooks/'' @ FormatUint webhookID @ ''/'' @ webhookToken,
             ForceQuery = False,
             RawQuery = (if wait then ''wait=true'' else ''wait=false''),
             Fragment = []\<rparr>,
          wa_Client = (case client of None \<Rightarrow> DefaultClient | Some c \<Rightarrow> c),
          wa_Wait = wait\<rparr> \<and>
     list_all (\<lambda>c. c \<in> set ''0123456789'') (FormatUint webhookID) \<and>
     foldl (\<lambda>n c. 10 * n + (of_char c - 48)) 0 (FormatUint webhookID) = unat webhookID \<and>
     (if webhookID = 0 then FormatUint webhookID = ''0''
      else hd (FormatUint webhookID) \<noteq> CHR ''0'')"
proof -
  define X where "X = FormatUint webhookID @ ''/'' @ webhookToken"
  define B where "B = FormatBool wait"
  have B: "B = ''true'' \<or> B = ''false''"
    by (simp add: B_def FormatBool_def)
  note D = unreserved_string [OF FormatUint_unreserved [of webhookID]]
  note T = unreserved_string [OF assms]
  have X: "CHR ''#'' \<notin> set X" "CHR ''?'' \<notin> set X" "CHR ''%'' \<notin> set X"
    "\<not> list_ex (\<lambda>c. (of_char c :: nat) < 32 \<or> (of_char c :: nat) = 127) X"
    using D T by (simp_all add: X_def)
  define P where "P = ''/api/webhooks/'' @ X"
  define Q where "Q = ''wait='' @ B"
  define rest2 where "rest2 = ''discord.com'' @ P"
  define rest1 where "rest1 = ''//'' @ rest2"
  define rest0 where "rest0 = rest1 @ ''?'' @ Q"
  define raw where "raw = ''https:'' @ rest0"
  have hash: "CHR ''#'' \<notin> set raw"
    using X(1) B by (auto simp add: raw_def rest0_def rest1_def rest2_def P_def Q_def)
  have ctl: "\<not> stringContainsCTLByte raw"
    using X(4) B
    by (auto simp add: stringContainsCTLByte_def raw_def rest0_def rest1_def rest2_def P_def Q_def)
  have star: "raw \<noteq> ''*''"
    by (simp add: raw_def)
  have sch: "getscheme raw = Inr (''https'', rest0)"
    by (simp add: getscheme_def raw_def is_alpha_def is_digit_def)
  have force: "last rest0 \<noteq> CHR ''?''"
    using B by (auto simp add: rest0_def Q_def)
  have "CHR ''?'' \<notin> set rest1"
    using X(2) by (simp add: rest1_def rest2_def P_def)
  then have q: "url_split rest0 (CHR ''?'') True = (rest1, Q)"
    using takeWhile_stop [of "CHR ''?''" rest1 Q] dropWhile_stop [of "CHR ''?''" rest1 Q]
    by (simp add: url_split_def rest0_def)
  have slashes: "take (Suc 0) rest1 = ''/''" "take 2 rest1 = ''//''" "drop 2 rest1 = rest2"
    by (simp_all add: rest1_def)
  have auth: "url_split rest2 (CHR ''/'') False = (''discord.com'', P)"
    by (simp add: url_split_def rest2_def P_def)
  have host: "parseAuthority ''discord.com'' = Inr ''discord.com''"
    by (simp add: parseAuthority_def unreserved_def is_alpha_def is_digit_def)
  have path: "unescape P = Inr P"
    by (rule unescape_plain) (use X(3) in \<open>simp add: P_def\<close>)
  have p: "parse raw =
      Inr \<lparr>Scheme = ''https'', Opaque = [], Host = ''discord.com'', Path = P,
           ForceQuery = False, RawQuery = Q, Fragment = []\<rparr>"
    by (simp add: parse_def ctl star sch force q slashes auth host path to_lower_simps Let_def
        zero_URL_def)
  have "Parse raw =
      Inr \<lparr>Scheme = ''https'', Opaque = [], Host = ''discord.com'', Path = P,
           ForceQuery = False, RawQuery = Q, Fragment = []\<rparr>"
    unfolding Parse_def url_split_absent [OF hash] by (simp add: p)
  moreover have "''https://discord.com/api/webhooks/'' @ FormatUint webhookID @ ''/'' @
      webhookToken @ ''?wait='' @ FormatBool wait = raw"
    by (simp add: raw_def rest0_def rest1_def rest2_def P_def Q_def X_def B_def)
  ultimately have made: "NewWebhookAPI DefaultClient webhookID webhookToken wait client =
     Inr \<lparr>wa_URL =
            \<lparr>Scheme = ''https'', Opaque = [], Host = ''discord.com'',
             Path = ''/api/webhooks/'' @ FormatUint webhookID @ ''/'' @ webhookToken,
             ForceQuery = False,
             RawQuery = (if wait then ''wait=true'' else ''wait=false''),
             Fragment = []\<rparr>,
          wa_Client = (case client of None \<Rightarrow> DefaultClient | Some c \<Rightarrow> c),
          wa_Wait = wait\<rparr>"
    unfolding NewWebhookAPI_def by (simp add: P_def Q_def X_def B_def FormatBool_def)
  have dec: "list_all (\<lambda>c. c \<in> set ''0123456789'') (FormatUint webhookID)"
    unfolding FormatUint_def by (rule digits_of_decimal)
  have val: "foldl (\<lambda>n c. 10 * n + (of_char c - 48)) 0 (FormatUint webhookID) = unat webhookID"
    unfolding FormatUint_def by (rule read_nat_digits_of [unfolded read_nat_def digit_val_def])
  have lead: "(if webhookID = 0 then FormatUint webhookID = ''0''
      else hd (FormatUint webhookID) \<noteq> CHR ''0'')"
  proof (cases "webhookID = 0")
    case True
    then show ?thesis
      by (simp add: FormatUint_def digits_of.simps digit_char_simps)
  next
    case False
    then have "0 < unat webhookID"
      by (simp add: unat_gt_0)
    then show ?thesis
      using False by (simp add: FormatUint_def digits_of_no_leading_zero)
  qed
  from made dec val lead show ?thesis
    by (intro conjI)
qed


text \<open>
  The identifier and token of the package's README with the wait flag set, and another
  identifier and token with the flag not set and a transport of the caller's.
\<close>

lemma FormatUint_example: "FormatUint 12345678900987654321 = ''12345678900987654321''"
  by (simp add: FormatUint_def digits_of.simps digit_char_simps)

lemma FormatUint_example_short: "FormatUint 42 = ''42''"
  by (simp add: FormatUint_def digits_of.simps digit_char_simps)

theorem NewWebhookAPI_url_witness:
  "list_all unreserved ''TOKENtoken1234567890asdfghjkl'' \<and>
   NewWebhookAPI (reply \<lparr>StatusCode = 200, Body = \<lparr>rd_bytes = [], rd_err = None\<rparr>\<rparr>)
       12345678900987654321 ''TOKENtoken1234567890asdfghjkl'' True None =
     Inr \<lparr>wa_URL =
            \<lparr>Scheme = ''https'', Opaque = [], Host = ''discord.com'',
             Path = ''/api/webhooks/12345678900987654321/TOKENtoken1234567890asdfghjkl'',
             ForceQuery = False,
             RawQuery = ''wait=true'',
             Fragment = []\<rparr>,
          wa_Client = reply \<lparr>StatusCode = 200, Body = \<lparr>rd_bytes = [], rd_err = None\<rparr>\<rparr>,
          wa_Wait = True\<rparr> \<and>
   list_all unreserved ''a-b_c.d~9'' \<and>
   NewWebhookAPI (reply \<lparr>StatusCode = 200, Body = \<lparr>rd_bytes = [], rd_err = None\<rparr>\<rparr>)
       42 ''a-b_c.d~9'' False
       (Some (reply \<lparr>StatusCode = 204, Body = \<lparr>rd_bytes = [], rd_err = None\<rparr>\<rparr>)) =
     Inr \<lparr>wa_URL =
            \<lparr>Scheme = ''https'', Opaque = [], Host = ''discord.com'',
             Path = ''/api/webhooks/42/a-b_c.d~9'',
             ForceQuery = False,
             RawQuery = ''wait=false'',
             Fragment = []\<rparr>,
          wa_Client = reply \<lparr>StatusCode = 204, Body = \<lparr>rd_bytes = [], rd_err = None\<rparr>\<rparr>,
          wa_Wait = False\<rparr>"
proof -
  have tok: "list_all unreserved ''TOKENtoken1234567890asdfghjkl''"
    by (simp add: unreserved_def is_alpha_def is_digit_def)
  have tok': "list_all unreserved ''a-b_c.d~9''"
    by (simp add: unreserved_def is_alpha_def is_digit_def)
  from NewWebhookAPI_url [OF tok,
      of "reply \<lparr>StatusCode = 200, Body = \<lparr>rd_bytes = [], rd_err = None\<rparr>\<rparr>"
        12345678900987654321 True None, THEN conjunct1]
  have one: "NewWebhookAPI (reply \<lparr>StatusCode = 200, Body = \<lparr>rd_bytes = [], rd_err = None\<rparr>\<rparr>)
       12345678900987654321 ''TOKENtoken1234567890asdfghjkl'' True None =
     Inr \<lparr>wa_URL =
            \<lparr>Scheme = ''https'', Opaque = [], Host = ''discord.com'',
             Path = ''/api/webhooks/12345678900987654321/TOKENtoken1234567890asdfghjkl'',
             ForceQuery = False,
             RawQuery = ''wait=true'',
             Fragment = []\<rparr>,
          wa_Client = reply \<lparr>StatusCode = 200, Body = \<lparr>rd_bytes = [], rd_err = None\<rparr>\<rparr>,
          wa_Wait = True\<rparr>"
    by (simp add: FormatUint_example)
  from NewWebhookAPI_url [OF tok',
      of "reply \<lparr>StatusCode = 200, Body = \<lparr>rd_bytes = [], rd_err = None\<rparr>\<rparr>"
        42 False "Some (reply \<lparr>StatusCode = 204, Body = \<lparr>rd_bytes = [], rd_err = None\<rparr>\<rparr>)",
      THEN conjunct1]
  have two: "NewWebhookAPI (reply \<lparr>StatusCode = 200, Body = \<lparr>rd_bytes = [], rd_err = None\<rparr>\<rparr>)
       42 ''a-b_c.d~9'' False
       (Some (reply \<lparr>StatusCode = 204, Body = \<lparr>rd_bytes = [], rd_err = None\<rparr>\<rparr>)) =
     Inr \<lparr>wa_URL =
            \<lparr>Scheme = ''https'', Opaque = [], Host = ''discord.com'',
             Path = ''/api/webhooks/42/a-b_c.d~9'',
             ForceQuery = False,
             RawQuery = ''wait=false'',
             Fragment = []\<rparr>,
          wa_Client = reply \<lparr>StatusCode = 204, Body = \<lparr>rd_bytes = [], rd_err = None\<rparr>\<rparr>,
          wa_Wait = False\<rparr>"
    by (simp add: FormatUint_example_short)
  from tok one tok' two show ?thesis
    by (intro conjI)
qed

end
